theory Spec2Isabelle
  imports Complex_Main "HOL-Library.Word"
begin

unbundle bit_operations_syntax

section \<open>JavaScript strings\<close>

text \<open>
  A JavaScript string is a sequence of code units. The model takes strings over the code
  units U+0000 to U+00FF, one \<^typ>\<open>char\<close> each: header values are byte strings, and
  every literal of the program is ASCII. \<open>length\<close> is the \<open>length\<close> property.
\<close>

definition startsWith :: "string \<Rightarrow> string \<Rightarrow> bool" where
  "startsWith s p = (take (length p) s = p)"

text \<open>\<open>s.slice(n)\<close> for a non-negative \<open>n\<close>.\<close>

definition slice_from :: "nat \<Rightarrow> string \<Rightarrow> string" where
  "slice_from n s = drop n s"

text \<open>\<open>s.includes(p)\<close>: \<open>p\<close> occurs in \<open>s\<close> as a contiguous run.\<close>

fun includes_str :: "string \<Rightarrow> string \<Rightarrow> bool" where
  "includes_str [] p = (p = [])"
| "includes_str (c # cs) p = (startsWith (c # cs) p \<or> includes_str cs p)"

text \<open>
  \<open>s.replace(p, r)\<close> with a string pattern: the first occurrence of \<open>p\<close> is replaced.
  The replacement is taken literally (the program's replacement is the empty string).
\<close>

fun replace_first :: "string \<Rightarrow> string \<Rightarrow> string \<Rightarrow> string" where
  "replace_first p r [] = (if p = [] then r else [])"
| "replace_first p r (c # cs) =
     (if startsWith (c # cs) p then r @ drop (length p) (c # cs)
      else c # replace_first p r cs)"

text \<open>
  \<open>s.split(",")\<close>: the pieces between the separators; the empty string splits into
  one empty piece.
\<close>

fun split_str :: "char \<Rightarrow> string \<Rightarrow> string list" where
  "split_str sep [] = [[]]"
| "split_str sep (c # cs) =
     (if c = sep then [] # split_str sep cs
      else (case split_str sep cs of
              [] \<Rightarrow> [[c]]
            | t # ts \<Rightarrow> (c # t) # ts))"

text \<open>
  \<open>s.trim()\<close> removes white space and line terminators from both ends; in the range
  of the model these are the code units 9 to 13, 32 and 160.
\<close>

definition is_js_space :: "char \<Rightarrow> bool" where
  "is_js_space c = ((of_char c :: nat) \<in> {9, 10, 11, 12, 13, 32, 160})"

definition trim :: "string \<Rightarrow> string" where
  "trim s = rev (dropWhile is_js_space (rev (dropWhile is_js_space s)))"

text \<open>
  \<open>s.toLowerCase()\<close>: in the range of the model the letters with a lower-case
  partner are A to Z and U+00C0 to U+00DE without the multiplication sign U+00D7; the
  partner is 32 code units up.
\<close>

definition lower_unit :: "char \<Rightarrow> char" where
  "lower_unit c =
     (let n = (of_char c :: nat) in
      if (65 \<le> n \<and> n \<le> 90) \<or> (192 \<le> n \<and> n \<le> 222 \<and> n \<noteq> 215) then char_of (n + 32) else c)"

definition toLowerCase :: "string \<Rightarrow> string" where
  "toLowerCase s = map lower_unit s"

text \<open>The decimal numeral of a natural number, as a template literal renders it.\<close>

fun show_nat :: "nat \<Rightarrow> string" where
  "show_nat n =
     (if n < 10 then [char_of (48 + n)]
      else show_nat (n div 10) @ [char_of (48 + n mod 10)])"

declare show_nat.simps [simp del]

text \<open>
  \<open>s.charCodeAt(i)\<close> is the code unit at \<open>i\<close>, and \<open>NaN\<close> (here \<open>None\<close>) out of
  range. The bitwise operators take their operands through \<open>ToInt32\<close>, which sends
  \<open>NaN\<close> to 0 and leaves a code unit as it is.
\<close>

definition charCodeAt :: "string \<Rightarrow> nat \<Rightarrow> nat option" where
  "charCodeAt s i = (if i < length s then Some (of_char (s ! i)) else None)"

definition ToInt32 :: "nat option \<Rightarrow> 32 word" where
  "ToInt32 v = (case v of None \<Rightarrow> 0 | Some n \<Rightarrow> of_nat n)"

section \<open>Header lists\<close>

text \<open>
  A \<open>Headers\<close> object is a list of name/value pairs; names are compared byte
  case-insensitively. \<open>get\<close> joins the values of all headers of that name with
  comma and space, and is \<open>null\<close> (here \<open>None\<close>) when there is none. \<open>set\<close> puts
  the value into the first header of that name and removes the others, or appends the
  header when there is none.
\<close>

type_synonym headers = "(string \<times> string) list"

definition byte_lower :: "char \<Rightarrow> char" where
  "byte_lower c =
     (let n = (of_char c :: nat) in if 65 \<le> n \<and> n \<le> 90 then char_of (n + 32) else c)"

definition same_name :: "string \<Rightarrow> string \<Rightarrow> bool" where
  "same_name a b = (map byte_lower a = map byte_lower b)"

fun join_str :: "string \<Rightarrow> string list \<Rightarrow> string" where
  "join_str sep [] = []"
| "join_str sep [x] = x"
| "join_str sep (x # y # ys) = x @ sep @ join_str sep (y # ys)"

definition headers_get :: "headers \<Rightarrow> string \<Rightarrow> string option" where
  "headers_get hs name =
     (case filter (\<lambda>h. same_name (fst h) name) hs of
        [] \<Rightarrow> None
      | v # vs \<Rightarrow> Some (join_str '', '' (map snd (v # vs))))"

fun set_first :: "string \<Rightarrow> string \<Rightarrow> headers \<Rightarrow> headers" where
  "set_first name v [] = []"
| "set_first name v (h # hs) =
     (if same_name (fst h) name
      then (fst h, v) # filter (\<lambda>h'. \<not> same_name (fst h') name) hs
      else h # set_first name v hs)"

definition headers_set :: "headers \<Rightarrow> string \<Rightarrow> string \<Rightarrow> headers" where
  "headers_set hs name v =
     (if list_ex (\<lambda>h. same_name (fst h) name) hs then set_first name v hs
      else hs @ [(name, v)])"

text \<open>The value that a map of headers gives a name, the first entry of that name.\<close>

definition lookup_name :: "headers \<Rightarrow> string \<Rightarrow> string option" where
  "lookup_name hs name = map_option snd (find (\<lambda>h. same_name (fst h) name) hs)"

section \<open>JSON text of flat objects\<close>

text \<open>
  \<open>JSON.stringify\<close> of an object literal whose property values are strings or
  \<open>undefined\<close>: a property that is \<open>undefined\<close> is left out, a string is quoted
  with the escapes of the language definition.
\<close>

definition hex_digit :: "nat \<Rightarrow> char" where
  "hex_digit n = (if n < 10 then char_of (48 + n) else char_of (87 + n))"

definition JSON_quote_unit :: "char \<Rightarrow> string" where
  "JSON_quote_unit c =
     (let n = (of_char c :: nat) in
      if n = 8 then [CHR 0x5C, CHR ''b'']
      else if n = 9 then [CHR 0x5C, CHR ''t'']
      else if n = 10 then [CHR 0x5C, CHR ''n'']
      else if n = 12 then [CHR 0x5C, CHR ''f'']
      else if n = 13 then [CHR 0x5C, CHR ''r'']
      else if n = 34 then [CHR 0x5C, CHR 0x22]
      else if n = 92 then [CHR 0x5C, CHR 0x5C]
      else if n < 32 then [CHR 0x5C] @ ''u00'' @ [hex_digit (n div 16), hex_digit (n mod 16)]
      else [c])"

definition JSON_quote :: "string \<Rightarrow> string" where
  "JSON_quote s = [CHR 0x22] @ concat (map JSON_quote_unit s) @ [CHR 0x22]"

definition JSON_stringify_obj :: "(string \<times> string option) list \<Rightarrow> string" where
  "JSON_stringify_obj kvs =
     ''{'' @ join_str '',''
        (concat (map (\<lambda>kv. case snd kv of
                              None \<Rightarrow> []
                            | Some v \<Rightarrow> [JSON_quote (fst kv) @ '':'' @ JSON_quote v]) kvs))
     @ ''}''"

section \<open>Requests, responses and the environment\<close>

text \<open>
  A parsed URL by the parts the router reads: path and query (the query is empty or
  starts with a question mark). Of a request the router reads the method, the URL
  \<open>new URL(request.url)\<close>, the headers and the body stream (\<open>None\<close> is the null
  body).
\<close>

record url =
  pathname :: string
  search :: string

record request =
  req_method :: string
  req_url :: url
  req_headers :: headers
  req_body :: "string option"

record response =
  status :: nat
  statusText :: string
  headers :: headers
  body :: "string option"

text \<open>
  The URL that the router builds for the harness, by its origin, path and query, and
  the request that it hands to the stub: that URL with the method, headers and body of
  the inbound request.
\<close>

record harness_url =
  url_origin :: string
  url_pathname :: string
  url_search :: string

record agent_request =
  agent_method :: string
  agent_url :: harness_url
  agent_headers :: headers
  agent_body :: "string option"

datatype ErrorCode = PROVIDER_ERROR

datatype error =
    TypeError
  | SyntaxError
  | RangeError
  | AppError ErrorCode string
  | Rejected string

text \<open>
  The variables and bindings of \<open>Env\<close> that the router uses. A variable that is not
  set is \<open>None\<close>. \<open>HARNESS\<close> is \<open>stub.fetch(new Request(url, init))\<close> for the stub
  that \<open>getHarnessStub(env)\<close> returns, as a function of the URL and the method,
  headers and body of the init: it answers with a response, or fails when the
  constructor of the request throws or the stub rejects. \<open>MCP_AGENT\<close> is the
  \<open>fetch\<close> of the mounted agent and \<open>ASSETS\<close> the \<open>fetch\<close> of the asset binding;
  each answers with a response or rejects.

  The last field is not a binding. It is the URL parser of the runtime,
  \<open>new URL(reference, "http://harness")\<close> followed by the assignment of a query to
  \<open>search\<close>, on the references and queries whose parsing is not written out below; it
  gives a URL or throws.
\<close>

record env =
  MAHORAGA_API_TOKEN :: "string option"
  CORS_ALLOWED_ORIGINS :: "string option"
  ENVIRONMENT :: "string option"
  HARNESS :: "agent_request \<Rightarrow> error + response"
  MCP_AGENT :: "request \<Rightarrow> error + response"
  ASSETS :: "request \<Rightarrow> error + response"
  PARSE_URL :: "string \<Rightarrow> string \<Rightarrow> error + harness_url"

section \<open>Authorization guard\<close>

text \<open>
  The loop of \<open>constantTimeCompare\<close>, from index \<open>i\<close> on. Next to the accumulated
  mismatch it keeps the positions whose code units it has read, in order; this trace
  is instrumentation, not a value of the program.
\<close>

function ctc_loop :: "string \<Rightarrow> string \<Rightarrow> nat \<Rightarrow> 32 word \<times> nat list \<Rightarrow> 32 word \<times> nat list" where
  "ctc_loop a b i acc =
     (if i < length a
      then ctc_loop a b (i + 1)
             (fst acc OR (ToInt32 (charCodeAt a i) XOR ToInt32 (charCodeAt b i)), snd acc @ [i])
      else acc)"
  by pat_completeness auto
termination
  by (relation "measure (\<lambda>(a, b, i, acc). length a - i)") auto

declare ctc_loop.simps [simp del]

definition constantTimeCompare :: "string \<Rightarrow> string \<Rightarrow> bool" where
  "constantTimeCompare a b =
     (if length a \<noteq> length b then False else fst (ctc_loop a b 0 (0, [])) = 0)"

text \<open>The positions that a call of \<open>constantTimeCompare\<close> reads.\<close>

definition positions_read :: "string \<Rightarrow> string \<Rightarrow> nat list" where
  "positions_read a b =
     (if length a \<noteq> length b then [] else snd (ctc_loop a b 0 (0, [])))"

definition isAuthorized :: "request \<Rightarrow> env \<Rightarrow> bool" where
  "isAuthorized request e =
     (case MAHORAGA_API_TOKEN e of
        None \<Rightarrow> False
      | Some token \<Rightarrow>
          if token = [] then False
          else (case headers_get (req_headers request) ''Authorization'' of
                  None \<Rightarrow> False
                | Some authHeader \<Rightarrow>
                    if \<not> startsWith authHeader ''Bearer '' then False
                    else constantTimeCompare (slice_from 7 authHeader) token))"

text \<open>
  An object literal with a spread: a key of the spread object that the literal already
  has takes the new value in place, any other key is added at the end.
\<close>

fun obj_assign :: "headers \<Rightarrow> string \<times> string \<Rightarrow> headers" where
  "obj_assign [] kv = [kv]"
| "obj_assign (h # hs) kv =
     (if fst h = fst kv then (fst h, snd kv) # hs else h # obj_assign hs kv)"

definition unauthorizedResponse :: "headers \<Rightarrow> response" where
  "unauthorizedResponse corsHeaders =
     \<lparr>status = 401, statusText = [],
      headers = foldl obj_assign [(''Content-Type'', ''application/json'')] corsHeaders,
      body = Some (JSON_stringify_obj
        [(''error'',
          Some ''Unauthorized. Requires: Authorization: Bearer <MAHORAGA_API_TOKEN>'')])\<rparr>"

section \<open>CORS policy resolver\<close>

definition cors_headers_for :: "string \<Rightarrow> headers" where
  "cors_headers_for origin_value =
     [(''Access-Control-Allow-Origin'', origin_value),
      (''Access-Control-Allow-Methods'', ''GET, POST, PUT, DELETE, OPTIONS''),
      (''Access-Control-Allow-Headers'', ''Content-Type, Authorization''),
      (''Access-Control-Max-Age'', ''86400'')]"

definition request_origin :: "request \<Rightarrow> string" where
  "request_origin request =
     (case headers_get (req_headers request) ''Origin'' of
        None \<Rightarrow> []
      | Some v \<Rightarrow> v)"

definition allowedOrigins :: "env \<Rightarrow> string list" where
  "allowedOrigins e =
     (case CORS_ALLOWED_ORIGINS e of
        None \<Rightarrow> []
      | Some s \<Rightarrow> map trim (split_str CHR '','' s))"

definition getCorsHeaders :: "request \<Rightarrow> env \<Rightarrow> headers" where
  "getCorsHeaders request e =
     (let origin_value = request_origin request;
          allowed = allowedOrigins e;
          isLocalhost = startsWith origin_value ''http://localhost:''
                        \<or> startsWith origin_value ''http://127.0.0.1:''
      in if isLocalhost \<or> origin_value \<in> set allowed \<or> ''*'' \<in> set allowed
         then cors_headers_for origin_value
         else [])"

section \<open>Edge router\<close>

subsection \<open>The URL for the harness\<close>

text \<open>
  \<open>new URL(reference, "http://harness")\<close>, as the URL standard parses a reference
  against this base, is written out for the references that consist of letters,
  digits and the characters \<open>- . _ ~ ! $ & ' ( ) * + , ; = : @ / %\<close>, which the parser
  copies into a path as they are, and that do not begin with a scheme. Such a
  reference names a host when it begins with two slashes; otherwise it is a path,
  from the root with or without a leading slash.
\<close>

definition is_alpha :: "char \<Rightarrow> bool" where
  "is_alpha c = (let n = (of_char c :: nat) in (65 \<le> n \<and> n \<le> 90) \<or> (97 \<le> n \<and> n \<le> 122))"

definition is_digit :: "char \<Rightarrow> bool" where
  "is_digit c = (let n = (of_char c :: nat) in 48 \<le> n \<and> n \<le> 57)"

definition plain_path_unit :: "char \<Rightarrow> bool" where
  "plain_path_unit c =
     (is_alpha c \<or> is_digit c \<or> c \<in> set ''-._~!$&()*+,;=:@/%'' \<or> c = CHR 0x27)"

text \<open>
  A reference begins with a scheme when a letter is followed by letters, digits,
  \<open>+\<close>, \<open>-\<close> and \<open>.\<close> up to a colon.
\<close>

definition scheme_unit :: "char \<Rightarrow> bool" where
  "scheme_unit c = (is_alpha c \<or> is_digit c \<or> c \<in> set ''+-.'')"

definition has_scheme :: "string \<Rightarrow> bool" where
  "has_scheme s =
     (case s of
        [] \<Rightarrow> False
      | c # cs \<Rightarrow>
          is_alpha c \<and> (case dropWhile scheme_unit cs of [] \<Rightarrow> False | d # ds \<Rightarrow> d = CHR '':''))"

text \<open>
  The segments of a path between slashes. A segment \<open>.\<close> is dropped and a segment
  \<open>..\<close> takes the segment before it away, also when a dot is written \<open>%2e\<close> or
  \<open>%2E\<close>; in the last place each of them leaves an empty segment.
\<close>

definition single_dot :: "string \<Rightarrow> bool" where
  "single_dot seg = (map byte_lower seg \<in> set [''.'', ''%2e''])"

definition double_dot :: "string \<Rightarrow> bool" where
  "double_dot seg = (map byte_lower seg \<in> set [''..'', ''.%2e'', ''%2e.'', ''%2e%2e''])"

fun path_segments :: "string list \<Rightarrow> string list \<Rightarrow> string list" where
  "path_segments path [] = path"
| "path_segments path [seg] =
     (if double_dot seg then butlast path @ [[]]
      else if single_dot seg then path @ [[]]
      else path @ [seg])"
| "path_segments path (seg # next # segs) =
     path_segments
       (if double_dot seg then butlast path
        else if single_dot seg then path
        else path @ [seg])
       (next # segs)"

definition resolve_path :: "string \<Rightarrow> string" where
  "resolve_path reference =
     (let rest = (if startsWith reference ''/'' then drop 1 reference else reference)
      in ''/'' @ join_str ''/'' (path_segments [] (split_str CHR ''/'' rest)))"

text \<open>
  The assignment \<open>agentUrl.search = v\<close> takes one leading question mark off \<open>v\<close>;
  the getter puts one in front of a query that is not empty. It is written out for
  the queries of code units from 0x21 to 0x7E without \<open>" # < > '\<close>, which the parser
  copies as they are.
\<close>

definition plain_query_unit :: "char \<Rightarrow> bool" where
  "plain_query_unit c =
     (let n = (of_char c :: nat) in
      33 \<le> n \<and> n \<le> 126 \<and> n \<noteq> 34 \<and> n \<noteq> 35 \<and> n \<noteq> 39 \<and> n \<noteq> 60 \<and> n \<noteq> 62)"

definition search_input :: "string \<Rightarrow> string" where
  "search_input v = (case v of [] \<Rightarrow> [] | c # cs \<Rightarrow> if c = CHR ''?'' then cs else v)"

definition plain_search :: "string \<Rightarrow> bool" where
  "plain_search v = list_all plain_query_unit (search_input v)"

definition assigned_search :: "string \<Rightarrow> string" where
  "assigned_search v = (if search_input v = [] then [] else CHR ''?'' # search_input v)"

text \<open>
  The URL \<open>agentUrl\<close> after the assignment of the query. A reference of two or more
  slashes and nothing else names an empty host, and the constructor throws a
  \<open>TypeError\<close>. Any other reference that names a host or begins with a scheme or has
  a character outside the ones above, and any query with one, is left to
  \<open>PARSE_URL\<close>.
\<close>

definition harness_URL :: "env \<Rightarrow> string \<Rightarrow> string \<Rightarrow> error + harness_url" where
  "harness_URL e reference v =
     (let plain = (list_all plain_path_unit reference \<and> \<not> has_scheme reference) in
      if plain \<and> startsWith reference ''//'' \<and> dropWhile (\<lambda>c. c = CHR ''/'') reference = []
      then Inl TypeError
      else if plain \<and> \<not> startsWith reference ''//'' \<and> plain_search v
      then Inr \<lparr>url_origin = ''http://harness'', url_pathname = resolve_path reference,
                url_search = assigned_search v\<rparr>
      else PARSE_URL e reference v)"

subsection \<open>The response constructor\<close>

text \<open>
  \<open>new Response(body, {status, statusText, headers})\<close> as the Fetch standard
  initialises a response: a status outside 200 to 599 is a \<open>RangeError\<close>; a status
  text that is not a reason phrase (tab, space, the visible ASCII characters and the
  code units from 0x80 on) is a \<open>TypeError\<close>, and so is a body with a status that
  has none.
\<close>

definition reason_phrase :: "string \<Rightarrow> bool" where
  "reason_phrase s =
     list_all (\<lambda>c. let n = (of_char c :: nat) in n = 9 \<or> n = 32 \<or> (33 \<le> n \<and> n \<le> 126) \<or> 128 \<le> n) s"

definition null_body_status :: "nat \<Rightarrow> bool" where
  "null_body_status n = (n \<in> set [101, 103, 204, 205, 304])"

definition new_Response :: "string option \<Rightarrow> nat \<Rightarrow> string \<Rightarrow> headers \<Rightarrow> error + response" where
  "new_Response b st txt hs =
     (if st < 200 \<or> 599 < st then Inl RangeError
      else if \<not> reason_phrase txt then Inl TypeError
      else if b \<noteq> None \<and> null_body_status st then Inl TypeError
      else Inr \<lparr>status = st, statusText = txt, headers = hs, body = b\<rparr>)"

subsection \<open>The handler\<close>

text \<open>
  The block that the router runs for the prefixes \<open>/api\<close> and \<open>/agent\<close> (the source
  has it twice, word for word but for the prefix): the request that goes to the
  harness, and the response that goes back to the client. The headers that it sets
  have literal names and values but for the origin, a value read from the request's
  \<open>Headers\<close>, which \<open>set\<close> takes as it is.
\<close>

definition agentRequest :: "string \<Rightarrow> request \<Rightarrow> env \<Rightarrow> error + agent_request" where
  "agentRequest prefix request e =
     (let u = req_url request;
          stripped = replace_first prefix [] (pathname u);
          agentPath = (if stripped = [] then ''/status'' else stripped)
      in case harness_URL e agentPath (search u) of
           Inl err \<Rightarrow> Inl err
         | Inr agentUrl \<Rightarrow>
             Inr \<lparr>agent_method = req_method request, agent_url = agentUrl,
                  agent_headers = req_headers request, agent_body = req_body request\<rparr>)"

definition withCors :: "headers \<Rightarrow> response \<Rightarrow> error + response" where
  "withCors corsHeaders r =
     (let newHeaders = foldl (\<lambda>hs kv. headers_set hs (fst kv) (snd kv)) (headers r) corsHeaders
      in new_Response (body r) (status r) (statusText r) newHeaders)"

definition proxy :: "string \<Rightarrow> headers \<Rightarrow> request \<Rightarrow> env \<Rightarrow> error + response" where
  "proxy prefix corsHeaders request e =
     (case agentRequest prefix request e of
        Inl err \<Rightarrow> Inl err
      | Inr q \<Rightarrow>
          (case HARNESS e q of
             Inl err \<Rightarrow> Inl err
           | Inr r \<Rightarrow> withCors corsHeaders r))"

text \<open>
  The handler \<open>fetch\<close> of the worker. \<open>now\<close> is the reading of the clock,
  \<open>new Date().toISOString()\<close>. The responses that it makes from constants pass the
  checks of the constructor and are written as the responses they are.
\<close>

definition fetch :: "string \<Rightarrow> request \<Rightarrow> env \<Rightarrow> error + response" where
  "fetch now request e =
     (let u = req_url request;
          corsHeaders = getCorsHeaders request e
      in if req_method request = ''OPTIONS''
         then Inr \<lparr>status = 204, statusText = [], headers = corsHeaders, body = None\<rparr>
         else if pathname u = ''/health''
         then Inr \<lparr>status = 200, statusText = [],
                   headers = [(''Content-Type'', ''application/json'')],
                   body = Some (JSON_stringify_obj
                     [(''status'', Some ''ok''), (''timestamp'', Some now),
                      (''environment'', ENVIRONMENT e)])\<rparr>
         else if startsWith (pathname u) ''/api''
         then proxy ''/api'' corsHeaders request e
         else if startsWith (pathname u) ''/mcp''
         then (if \<not> isAuthorized request e then Inr (unauthorizedResponse [])
               else MCP_AGENT e request)
         else if startsWith (pathname u) ''/agent''
         then proxy ''/agent'' corsHeaders request e
         else ASSETS e request)"

section \<open>Decoded JSON values\<close>

text \<open>
  The values that \<open>response.json()\<close> yields and that property access on them
  yields. Numbers are only passed on, never computed with.
\<close>

datatype js =
    Undefined
  | Null
  | JBool bool
  | JNum real
  | JStr string
  | JArr "js list"
  | JObj "(string \<times> js) list"

definition nullish :: "js \<Rightarrow> bool" where
  "nullish v = (v = Undefined \<or> v = Null)"

fun truthy :: "js \<Rightarrow> bool" where
  "truthy Undefined = False"
| "truthy Null = False"
| "truthy (JBool b) = b"
| "truthy (JNum n) = (n \<noteq> 0)"
| "truthy (JStr s) = (s \<noteq> [])"
| "truthy (JArr xs) = True"
| "truthy (JObj kvs) = True"

text \<open>
  The value of the property \<open>name\<close> of a value that is neither \<open>undefined\<close> nor
  \<open>null\<close>, for the names the adapter reads (none of them is a method of a
  prototype): an object has its own properties, an array and a string have
  \<open>length\<close>, anything else has none.
\<close>

fun prop_of :: "js \<Rightarrow> string \<Rightarrow> js" where
  "prop_of (JObj kvs) name = (case map_of kvs name of None \<Rightarrow> Undefined | Some v \<Rightarrow> v)"
| "prop_of (JArr xs) name = (if name = ''length'' then JNum (real (length xs)) else Undefined)"
| "prop_of (JStr s) name = (if name = ''length'' then JNum (real (length s)) else Undefined)"
| "prop_of v name = Undefined"

text \<open>The element \<open>v[i]\<close> of a value that is neither \<open>undefined\<close> nor \<open>null\<close>.\<close>

fun index_of :: "js \<Rightarrow> nat \<Rightarrow> js" where
  "index_of (JArr xs) i = (if i < length xs then xs ! i else Undefined)"
| "index_of (JStr s) i = (if i < length s then JStr [s ! i] else Undefined)"
| "index_of (JObj kvs) i = (case map_of kvs (show_nat i) of None \<Rightarrow> Undefined | Some v \<Rightarrow> v)"
| "index_of v i = Undefined"

text \<open>\<open>v.name\<close> and \<open>v[i]\<close> throw a \<open>TypeError\<close> on \<open>undefined\<close> and \<open>null\<close>.\<close>

definition get_prop :: "js \<Rightarrow> string \<Rightarrow> error + js" where
  "get_prop v name = (if nullish v then Inl TypeError else Inr (prop_of v name))"

definition get_index :: "js \<Rightarrow> nat \<Rightarrow> error + js" where
  "get_index v i = (if nullish v then Inl TypeError else Inr (index_of v i))"

text \<open>\<open>v?.name\<close> is \<open>undefined\<close> on \<open>undefined\<close> and \<open>null\<close>.\<close>

definition opt_prop :: "js \<Rightarrow> string \<Rightarrow> js" where
  "opt_prop v name = (if nullish v then Undefined else prop_of v name)"

text \<open>
  \<open>v?.substring(0, 200)\<close>: \<open>undefined\<close> on \<open>undefined\<close> and \<open>null\<close>; a string
  gives its first 200 code units; any other value has no such method, and the call
  throws.
\<close>

definition opt_substring_200 :: "js \<Rightarrow> error + js" where
  "opt_substring_200 v =
     (if nullish v then Inr Undefined
      else (case v of JStr s \<Rightarrow> Inr (JStr (take 200 s)) | _ \<Rightarrow> Inl TypeError))"

text \<open>\<open>v.trim() === ""\<close> for a value that is not \<open>undefined\<close> or \<open>null\<close>.\<close>

definition trim_is_empty :: "js \<Rightarrow> error + bool" where
  "trim_is_empty v = (case v of JStr s \<Rightarrow> Inr (trim s = []) | _ \<Rightarrow> Inl TypeError)"

definition bind_err :: "error + 'a \<Rightarrow> ('a \<Rightarrow> error + 'b) \<Rightarrow> error + 'b" where
  "bind_err m f = (case m of Inl err \<Rightarrow> Inl err | Inr v \<Rightarrow> f v)"

section \<open>Completion provider adapter\<close>

record ZAIConfig =
  apiKey :: string
  model :: "string option"
  baseUrl :: "string option"

record ZAIProvider =
  this_apiKey :: string
  this_model :: string
  this_baseUrl :: string

record chat_message =
  role :: string
  content :: string

record CompletionParams =
  messages :: "chat_message list"
  params_model :: "string option"
  temperature :: "real option"
  max_tokens :: "real option"
  response_format :: js

record request_body =
  body_model :: string
  body_messages :: "chat_message list"
  body_temperature :: real
  body_max_tokens :: real
  body_response_format :: "js option"

text \<open>The call of the network \<open>fetch\<close>: the body is kept as the object that is serialised.\<close>

record http_request =
  http_url :: string
  http_method :: string
  http_headers :: headers
  http_body :: request_body

text \<open>
  The response of the backend by what the adapter reads of it: the status,
  \<open>text()\<close>, and \<open>json()\<close>, which is \<open>None\<close> when the body is not valid JSON
  (the promise rejects with a \<open>SyntaxError\<close>). \<open>ok\<close> is a status from 200 to 299.
\<close>

record http_response =
  http_status :: nat
  http_statusText :: string
  body_text :: string
  body_json :: "js option"

definition ok :: "http_response \<Rightarrow> bool" where
  "ok r = (200 \<le> http_status r \<and> http_status r \<le> 299)"

record usage_counters =
  prompt_tokens :: js
  completion_tokens :: js
  total_tokens :: js

record CompletionResult =
  result_content :: js
  usage :: usage_counters

text \<open>
  Modelled from the spec: \<open>createError\<close> of \<open>lib/errors\<close> is not among the sources;
  the error it makes carries the code and the message it is given (the tests match
  on both).
\<close>

definition createError :: "ErrorCode \<Rightarrow> string \<Rightarrow> error" where
  "createError c msg = AppError c msg"

definition isNonZAIModel :: "string \<Rightarrow> bool" where
  "isNonZAIModel lower =
     (includes_str lower ''gpt'' \<or> includes_str lower ''claude'' \<or> includes_str lower ''gemini'')"

text \<open>\<open>s.trim().replace(/\/+$/, "")\<close>: the slashes at the end are removed.\<close>

definition normalizeBaseUrl :: "string option \<Rightarrow> string" where
  "normalizeBaseUrl b =
     (let s = trim (case b of None \<Rightarrow> ''https://api.z.ai/api/coding/paas/v4'' | Some v \<Rightarrow> v)
      in rev (dropWhile (\<lambda>c. c = CHR ''/'') (rev s)))"

subsection \<open>The revision with \<open>normalizeModel\<close>\<close>

definition new_ZAIProvider :: "ZAIConfig \<Rightarrow> ZAIProvider" where
  "new_ZAIProvider config =
     (let providedModel = (case model config of None \<Rightarrow> [] | Some m \<Rightarrow> toLowerCase m)
      in \<lparr>this_apiKey = apiKey config,
          this_model = (if isNonZAIModel providedModel then ''GLM-4.7''
                        else (case model config of None \<Rightarrow> ''GLM-4.7'' | Some m \<Rightarrow> m)),
          this_baseUrl = normalizeBaseUrl (baseUrl config)\<rparr>)"

definition normalizeModel :: "ZAIProvider \<Rightarrow> string option \<Rightarrow> string" where
  "normalizeModel this m =
     (case m of
        None \<Rightarrow> this_model this
      | Some given \<Rightarrow>
          if given = [] then this_model this
          else if isNonZAIModel (toLowerCase given) then this_model this
          else given)"

definition build_request :: "ZAIProvider \<Rightarrow> string \<Rightarrow> CompletionParams \<Rightarrow> http_request" where
  "build_request this m params =
     \<lparr>http_url = this_baseUrl this @ ''/chat/completions'',
      http_method = ''POST'',
      http_headers = [(''Content-Type'', ''application/json''),
                      (''Authorization'', ''Bearer '' @ this_apiKey this)],
      http_body =
        \<lparr>body_model = m,
         body_messages = messages params,
         body_temperature = (case temperature params of None \<Rightarrow> 7 / 10 | Some t \<Rightarrow> t),
         body_max_tokens = (case max_tokens params of None \<Rightarrow> 1024 | Some n \<Rightarrow> n),
         body_response_format =
           (if truthy (response_format params) then Some (response_format params) else None)\<rparr>\<rparr>"

definition complete_request :: "ZAIProvider \<Rightarrow> CompletionParams \<Rightarrow> http_request" where
  "complete_request this params = build_request this (normalizeModel this (params_model params)) params"

text \<open>\<open>data.choices[0]?.message?.content\<close>, and the same path to another property.\<close>

definition first_choice :: "js \<Rightarrow> error + js" where
  "first_choice data = bind_err (get_prop data ''choices'') (\<lambda>choices. get_index choices 0)"

definition first_content :: "js \<Rightarrow> error + js" where
  "first_content data =
     bind_err (first_choice data) (\<lambda>c. Inr (opt_prop (opt_prop c ''message'') ''content''))"

text \<open>
  The object that the adapter logs after decoding. What the console prints is not part
  of the model; the evaluation of the object is, since it can throw.
\<close>

definition response_log :: "js \<Rightarrow> error + js" where
  "response_log data =
     bind_err (get_prop data ''id'') (\<lambda>id_value.
     bind_err (get_prop data ''choices'') (\<lambda>choices.
     bind_err (get_prop choices ''length'') (\<lambda>choicesCount.
     bind_err (first_content data) (\<lambda>c.
     bind_err (opt_substring_200 c) (\<lambda>preview.
     bind_err (first_choice data) (\<lambda>ch.
     bind_err (get_prop data ''usage'') (\<lambda>u.
       Inr (JObj
         [(''id'', id_value),
          (''choicesCount'', choicesCount),
          (''hasContent'', JBool (truthy c)),
          (''contentLength'',
             (if truthy (opt_prop c ''length'') then opt_prop c ''length'' else JNum 0)),
          (''contentPreview'', (if truthy preview then preview else JStr ''EMPTY'')),
          (''finishReason'', opt_prop ch ''finish_reason''),
          (''usage'', u)]))))))))"

definition read_usage :: "js \<Rightarrow> error + usage_counters" where
  "read_usage data =
     bind_err (get_prop data ''usage'') (\<lambda>u1.
     bind_err (get_prop u1 ''prompt_tokens'') (\<lambda>p.
     bind_err (get_prop data ''usage'') (\<lambda>u2.
     bind_err (get_prop u2 ''completion_tokens'') (\<lambda>c.
     bind_err (get_prop data ''usage'') (\<lambda>u3.
     bind_err (get_prop u3 ''total_tokens'') (\<lambda>t.
       Inr \<lparr>prompt_tokens = p, completion_tokens = c, total_tokens = t\<rparr>))))))"

definition provider_error :: "http_response \<Rightarrow> error" where
  "provider_error r =
     createError PROVIDER_ERROR
       (''Z.AI API error ('' @ show_nat (http_status r) @ ''): '' @ body_text r)"

definition complete :: "ZAIProvider \<Rightarrow> (http_request \<Rightarrow> error + http_response) \<Rightarrow> CompletionParams
    \<Rightarrow> error + CompletionResult" where
  "complete this network params =
     bind_err (network (complete_request this params)) (\<lambda>r.
       if \<not> ok r then Inl (provider_error r)
       else (case body_json r of
               None \<Rightarrow> Inl SyntaxError
             | Some data \<Rightarrow>
                 bind_err (response_log data) (\<lambda>logged.
                 bind_err (first_content data) (\<lambda>c.
                 let content_value = (if nullish c then JStr [] else c) in
                 bind_err (first_choice data) (\<lambda>ch.
                 let reasoningContent = opt_prop (opt_prop ch ''message'') ''reasoning_content'' in
                 bind_err (if \<not> truthy content_value then Inr True
                           else trim_is_empty content_value) (\<lambda>is_empty.
                 bind_err (read_usage data) (\<lambda>u.
                   Inr \<lparr>result_content = content_value, usage = u\<rparr>)))))))"

subsection \<open>The revision without \<open>normalizeModel\<close>\<close>

definition new_ZAIProvider2 :: "ZAIConfig \<Rightarrow> ZAIProvider" where
  "new_ZAIProvider2 config =
     \<lparr>this_apiKey = apiKey config,
      this_model = (case model config of None \<Rightarrow> ''GLM-4.7'' | Some m \<Rightarrow> m),
      this_baseUrl = normalizeBaseUrl (baseUrl config)\<rparr>"

definition complete_request2 :: "ZAIProvider \<Rightarrow> CompletionParams \<Rightarrow> http_request" where
  "complete_request2 this params =
     build_request this
       (case params_model params of None \<Rightarrow> this_model this | Some given \<Rightarrow> given) params"

definition complete2 :: "ZAIProvider \<Rightarrow> (http_request \<Rightarrow> error + http_response) \<Rightarrow> CompletionParams
    \<Rightarrow> error + CompletionResult" where
  "complete2 this network params =
     bind_err (network (complete_request2 this params)) (\<lambda>r.
       if \<not> ok r then Inl (provider_error r)
       else (case body_json r of
               None \<Rightarrow> Inl SyntaxError
             | Some data \<Rightarrow>
                 bind_err (first_content data) (\<lambda>c.
                 let content_value = (if nullish c then JStr [] else c) in
                 bind_err (read_usage data) (\<lambda>u.
                   Inr \<lparr>result_content = content_value, usage = u\<rparr>))))"

section \<open>Shapes of a decoded envelope\<close>

text \<open>
  The value at the end of the path \<open>choices[0]?.message?.content\<close> of an envelope
  that has \<open>choices\<close>, the three counters of its \<open>usage\<close> member, and whether a
  value is a string.
\<close>

definition content_path :: "js \<Rightarrow> js" where
  "content_path data =
     opt_prop (opt_prop (index_of (prop_of data ''choices'') 0) ''message'') ''content''"

definition usage_of :: "js \<Rightarrow> usage_counters" where
  "usage_of data =
     \<lparr>prompt_tokens = prop_of (prop_of data ''usage'') ''prompt_tokens'',
      completion_tokens = prop_of (prop_of data ''usage'') ''completion_tokens'',
      total_tokens = prop_of (prop_of data ''usage'') ''total_tokens''\<rparr>"

definition is_string :: "js \<Rightarrow> bool" where
  "is_string v = (case v of JStr s \<Rightarrow> True | _ \<Rightarrow> False)"

text \<open>
  A string contains a fragment case-insensitively when one of its windows of the
  fragment's length is the fragment once it is put in lower case.
\<close>

definition contains_ci :: "string \<Rightarrow> string \<Rightarrow> bool" where
  "contains_ci s fragment =
     list_ex (\<lambda>i. toLowerCase (take (length fragment) (drop i s)) = fragment) [0..<Suc (length s)]"

section \<open>Paths and queries of parsed URLs\<close>

text \<open>
  A reference is simple when the parser copies it: it has only the characters that go
  into a path as they are, no scheme, no two slashes at its beginning, and no segment
  that is a dot segment. A query is one of a parsed URL when it is empty, or a
  question mark followed by at least one character, all of them copied as they are.
  The path and the query of a URL that the parser has made are of this kind.
\<close>

definition simple_reference :: "string \<Rightarrow> bool" where
  "simple_reference r =
     (list_all plain_path_unit r \<and> \<not> has_scheme r \<and> \<not> startsWith r ''//''
      \<and> list_all (\<lambda>seg. \<not> single_dot seg \<and> \<not> double_dot seg)
           (split_str CHR ''/'' (if startsWith r ''/'' then drop 1 r else r)))"

definition parsed_search :: "string \<Rightarrow> bool" where
  "parsed_search v =
     (v = [] \<or> (startsWith v ''?'' \<and> drop 1 v \<noteq> [] \<and> list_all plain_query_unit (drop 1 v)))"

section \<open>The specification's reading of the CORS decision\<close>

text \<open>
  The specification allows an origin of the shape \<open>http://localhost:<port>\<close> or
  \<open>http://127.0.0.1:<port>\<close>, an origin that is in the allow-list, and any origin when
  the list has the wildcard. A port is read here as a non-empty run of decimal digits.
\<close>

definition spec_port :: "string \<Rightarrow> bool" where
  "spec_port p = (p \<noteq> [] \<and> list_all (\<lambda>c. c \<in> set ''0123456789'') p)"

definition spec_localhost_origin :: "string \<Rightarrow> bool" where
  "spec_localhost_origin v =
     ((startsWith v ''http://localhost:'' \<or> startsWith v ''http://127.0.0.1:'')
      \<and> spec_port (drop 17 v))"

definition spec_cors_headers :: "string \<Rightarrow> string list \<Rightarrow> headers" where
  "spec_cors_headers v allowed =
     (if spec_localhost_origin v \<or> v \<in> set allowed \<or> ''*'' \<in> set allowed
      then cors_headers_for v else [])"

section \<open>The 401 body as text\<close>

text \<open>
  The text that \<open>JSON.stringify\<close> gives for the object of the 401 response, written
  out; the code unit 0x22 is the double quote.
\<close>

definition unauthorized_body :: string where
  "unauthorized_body =
     ''{'' @ [CHR 0x22] @ ''error'' @ [CHR 0x22] @ '':'' @ [CHR 0x22]
     @ ''Unauthorized. Requires: Authorization: Bearer <MAHORAGA_API_TOKEN>'' @ [CHR 0x22] @ ''}''"

section \<open>Example values\<close>

text \<open>
  An environment whose harness answers every request with a fixed set of headers and
  with the path and query it was asked for as the body, whose agent and asset
  bindings give fixed answers and whose parser gives a fixed URL for what is left to
  it; and a request with a given method, path, query and headers.
\<close>

definition example_env :: "string option \<Rightarrow> string option \<Rightarrow> env" where
  "example_env token origins =
     \<lparr>MAHORAGA_API_TOKEN = token, CORS_ALLOWED_ORIGINS = origins, ENVIRONMENT = Some ''test'',
      HARNESS = (\<lambda>r. Inr \<lparr>status = 200, statusText = ''OK'',
                           headers = [(''Content-Type'', ''text/plain''),
                                      (''access-control-allow-origin'', ''*''),
                                      (''Set-Cookie'', ''a=1''), (''Set-Cookie'', ''b=2'')],
                           body = Some (url_pathname (agent_url r) @ url_search (agent_url r))\<rparr>),
      MCP_AGENT = (\<lambda>r. Inr \<lparr>status = 200, statusText = ''OK'', headers = [],
                             body = Some ''mcp''\<rparr>),
      ASSETS = (\<lambda>r. Inr \<lparr>status = 200, statusText = ''OK'',
                          headers = [(''Content-Type'', ''text/html'')],
                          body = Some ''index''\<rparr>),
      PARSE_URL = (\<lambda>reference v. Inr \<lparr>url_origin = ''http://elsewhere'', url_pathname = ''/'',
                                        url_search = []\<rparr>)\<rparr>"

definition example_request :: "string \<Rightarrow> string \<Rightarrow> string \<Rightarrow> headers \<Rightarrow> request" where
  "example_request m path query hs =
     \<lparr>req_method = m,
      req_url = \<lparr>pathname = path, search = query\<rparr>,
      req_headers = hs, req_body = None\<rparr>"

text \<open>
  A provider configuration without model and base URL, completion parameters with one
  message and a given model, a backend that answers every request with a given status,
  body text and decoded body, and a \<open>usage\<close> member.
\<close>

definition example_config :: ZAIConfig where
  "example_config = \<lparr>apiKey = ''zai-test'', model = None, baseUrl = None\<rparr>"

definition example_params :: "string option \<Rightarrow> CompletionParams" where
  "example_params m =
     \<lparr>messages = [\<lparr>role = ''user'', content = ''Test''\<rparr>], params_model = m,
      temperature = None, max_tokens = None, response_format = Undefined\<rparr>"

definition example_backend :: "nat \<Rightarrow> string \<Rightarrow> js option \<Rightarrow> http_request \<Rightarrow> error + http_response" where
  "example_backend code txt decoded q =
     Inr \<lparr>http_status = code, http_statusText = [], body_text = txt, body_json = decoded\<rparr>"

definition example_usage :: js where
  "example_usage =
     JObj [(''prompt_tokens'', JNum 10), (''completion_tokens'', JNum 0), (''total_tokens'', JNum 10)]"

section \<open>Properties of strings and of the guard\<close>

lemmas unit_eval = char_of_def bit_Suc_0_iff

text \<open>
  \<open>split_str\<close> cuts at the separators: joining the pieces with the separator gives
  the string back, and no piece has the separator. \<open>trim\<close> takes white space off both
  ends and leaves a string that neither begins nor ends with white space.
\<close>

lemma split_str_nonempty: "split_str sep s \<noteq> []"
  by (induction s) (auto split: list.splits)

lemma join_str_Cons: "join_str sep ((c # t) # ts) = c # join_str sep (t # ts)"
  by (cases ts) simp_all

lemma join_split_str: "join_str [sep] (split_str sep s) = s"
proof (induction s)
  case Nil
  then show ?case by simp
next
  case (Cons c cs)
  obtain t ts where ts: "split_str sep cs = t # ts"
    using split_str_nonempty [of sep cs] by (cases "split_str sep cs") auto
  show ?case
    using Cons ts by (simp add: join_str_Cons)
qed

lemma split_str_no_sep: "t \<in> set (split_str sep s) \<Longrightarrow> sep \<notin> set t"
proof (induction s arbitrary: t)
  case Nil
  then show ?case by simp
next
  case (Cons c cs)
  obtain u us where us: "split_str sep cs = u # us"
    using split_str_nonempty [of sep cs] by (cases "split_str sep cs") auto
  show ?case
  proof (cases "c = sep")
    case True
    with Cons show ?thesis by auto
  next
    case False
    with Cons.prems us have "t = c # u \<or> t \<in> set us" by simp
    then show ?thesis
      using Cons.IH [of u] Cons.IH [of t] us False by auto
  qed
qed

lemma trim_decomposition:
  "\<exists>l r. s = l @ trim s @ r \<and> list_all is_js_space l \<and> list_all is_js_space r"
proof -
  let ?m = "dropWhile is_js_space s"
  have 1: "s = takeWhile is_js_space s @ ?m" by simp
  have "rev ?m = takeWhile is_js_space (rev ?m) @ dropWhile is_js_space (rev ?m)" by simp
  then have "?m = rev (dropWhile is_js_space (rev ?m)) @ rev (takeWhile is_js_space (rev ?m))"
    by (metis rev_append rev_rev_ident)
  then have 2: "?m = trim s @ rev (takeWhile is_js_space (rev ?m))"
    by (simp add: trim_def)
  have 3: "list_all is_js_space (takeWhile is_js_space s)"
    "list_all is_js_space (rev (takeWhile is_js_space (rev ?m)))"
    by (auto simp add: list_all_iff dest: set_takeWhileD)
  from 1 2 have "s = takeWhile is_js_space s @ trim s @ rev (takeWhile is_js_space (rev ?m))"
    by metis
  with 3 show ?thesis by blast
qed

lemma trim_ends:
  "trim s \<noteq> [] \<Longrightarrow> \<not> is_js_space (hd (trim s)) \<and> \<not> is_js_space (last (trim s))"
proof -
  assume ne: "trim s \<noteq> []"
  let ?m = "dropWhile is_js_space s"
  let ?d = "dropWhile is_js_space (rev ?m)"
  have t: "trim s = rev ?d" by (simp add: trim_def)
  with ne have d: "?d \<noteq> []" by simp
  then have a: "\<not> is_js_space (hd ?d)" by (rule hd_dropWhile)
  have l: "last (trim s) = hd ?d" using d by (simp add: t last_rev)
  have "?m \<noteq> []"
  proof
    assume e: "?m = []"
    have "?d = []" unfolding e by simp
    with d show False by simp
  qed
  then have b: "\<not> is_js_space (hd ?m)" by (rule hd_dropWhile)
  have "rev ?m = takeWhile is_js_space (rev ?m) @ ?d" by simp
  then have "?m = rev ?d @ rev (takeWhile is_js_space (rev ?m))"
    by (metis rev_append rev_rev_ident)
  then have "hd ?m = hd (rev ?d)" using d by (metis hd_append2 rev_is_Nil_conv)
  with a b l t show ?thesis by simp
qed

lemma or_zero_iff: "(x OR y = (0::32 word)) \<longleftrightarrow> x = 0 \<and> y = 0"
  by (rule or_eq_0_iff)

lemma unit_code_inj: "(of_nat (of_char c) :: 32 word) = of_nat (of_char d) \<longleftrightarrow> c = d"
proof
  assume h: "(of_nat (of_char c) :: 32 word) = of_nat (of_char d)"
  have bound: "(of_char x :: nat) < 2 ^ 32" for x
  proof -
    have "(of_char x :: nat) < 256" by (rule nat_of_char_less_256)
    also have "(256 :: nat) < 2 ^ 32" by simp
    finally show ?thesis .
  qed
  note c = bound [of c] and d = bound [of d]
  from h have "unat (of_nat (of_char c) :: 32 word) = unat (of_nat (of_char d) :: 32 word)" by simp
  then have "(of_char c :: nat) = of_char d"
    using c d by (simp add: unat_of_nat)
  then show "c = d" by simp
qed simp

lemma xor_zero_iff: "(x XOR y = (0::32 word)) \<longleftrightarrow> x = y"
  by (metis bit.xor_self xor.left_neutral xor.assoc)

lemma ctc_loop_trace: "snd (ctc_loop a b i acc) = snd acc @ [i..<length a]"
proof (induction a b i acc rule: ctc_loop.induct)
  case (1 a b i acc)
  show ?case
  proof (cases "i < length a")
    case True
    with 1 show ?thesis
      by (subst ctc_loop.simps) (simp add: upt_conv_Cons)
  next
    case False
    then show ?thesis by (subst ctc_loop.simps) simp
  qed
qed

lemma ctc_loop_zero:
  "length a = length b \<Longrightarrow> fst (ctc_loop a b i acc) = 0 \<longleftrightarrow> fst acc = 0 \<and> drop i a = drop i b"
proof (induction a b i acc rule: ctc_loop.induct)
  case (1 a b i acc)
  show ?case
  proof (cases "i < length a")
    case True
    have da: "drop i a = a ! i # drop (Suc i) a" using True by (simp add: Cons_nth_drop_Suc)
    have db: "drop i b = b ! i # drop (Suc i) b" using True 1(2) by (simp add: Cons_nth_drop_Suc)
    have "fst (ctc_loop a b i acc) = 0 \<longleftrightarrow>
          fst (ctc_loop a b (i + 1)
             (fst acc OR (ToInt32 (charCodeAt a i) XOR ToInt32 (charCodeAt b i)), snd acc @ [i])) = 0"
      using True by (subst ctc_loop.simps) simp
    also have "\<dots> \<longleftrightarrow> (fst acc OR (ToInt32 (charCodeAt a i) XOR ToInt32 (charCodeAt b i))) = 0
                  \<and> drop (Suc i) a = drop (Suc i) b"
      using 1(1) [OF True 1(2)] by simp
    also have "\<dots> \<longleftrightarrow> fst acc = 0 \<and> a ! i = b ! i \<and> drop (Suc i) a = drop (Suc i) b"
      using True 1(2)
      by (auto simp add: or_zero_iff xor_zero_iff ToInt32_def charCodeAt_def unit_code_inj)
    also have "\<dots> \<longleftrightarrow> fst acc = 0 \<and> drop i a = drop i b"
      by (simp add: da db)
    finally show ?thesis .
  next
    case False
    then show ?thesis using 1(2) by (subst ctc_loop.simps) simp
  qed
qed

lemma startsWith_iff: "startsWith s p \<longleftrightarrow> (\<exists>r. s = p @ r)"
  unfolding startsWith_def
  by (metis append_eq_conv_conj append_take_drop_id)

lemma constantTimeCompare_eq: "constantTimeCompare a b \<longleftrightarrow> a = b"
proof (cases "length a = length b")
  case True
  then show ?thesis
    using ctc_loop_zero [OF True, of 0 "(0, [])"] by (simp add: constantTimeCompare_def)
next
  case False
  then show ?thesis by (auto simp add: constantTimeCompare_def)
qed

lemma positions_read_all:
  "positions_read a b = (if length a = length b then [0..<length a] else [])"
  by (simp add: positions_read_def ctc_loop_trace)

text \<open>
  Claim C2. \<open>isAuthorized\<close> is true exactly when a secret is configured (set and not
  empty: the guard fails closed on an unset and on an empty secret), the request has an
  \<open>Authorization\<close> header of the form \<open>Bearer\<close>, space, token, and the token is the
  secret; so it is false without a secret, without the header and for another scheme.
  The comparator accepts two strings exactly when they are equal; when the lengths
  differ it reads no position at all, and when they agree it reads every position once,
  in order, wherever the first mismatch is.
\<close>

theorem isAuthorized_bearer_secret:
  "(isAuthorized request e \<longleftrightarrow>
      (\<exists>token. MAHORAGA_API_TOKEN e = Some token \<and> token \<noteq> [] \<and>
         headers_get (req_headers request) ''Authorization'' = Some (''Bearer '' @ token)))
   \<and> (constantTimeCompare a b \<longleftrightarrow> a = b)
   \<and> positions_read a b = (if length a = length b then [0..<length a] else [])"
proof -
  have "isAuthorized request e \<longleftrightarrow>
      (\<exists>token. MAHORAGA_API_TOKEN e = Some token \<and> token \<noteq> [] \<and>
         headers_get (req_headers request) ''Authorization'' = Some (''Bearer '' @ token))"
  proof (cases "MAHORAGA_API_TOKEN e")
    case None
    then show ?thesis by (simp add: isAuthorized_def)
  next
    case (Some token)
    show ?thesis
    proof (cases "headers_get (req_headers request) ''Authorization''")
      case None
      with Some show ?thesis by (simp add: isAuthorized_def)
    next
      case h: (Some authHeader)
      show ?thesis
      proof (cases "startsWith authHeader ''Bearer ''")
        case True
        then obtain r where r: "authHeader = ''Bearer '' @ r"
          by (auto simp add: startsWith_iff)
        show ?thesis
          using Some h r by (auto simp add: isAuthorized_def constantTimeCompare_eq slice_from_def startsWith_def)
      next
        case False
        then have "authHeader \<noteq> ''Bearer '' @ token"
          by (auto simp add: startsWith_iff)
        with Some h False show ?thesis by (simp add: isAuthorized_def)
      qed
    qed
  qed
  then show ?thesis
    by (simp add: constantTimeCompare_eq positions_read_all)
qed

theorem isAuthorized_bearer_secret_witness:
  "isAuthorized (example_request ''GET'' ''/mcp/tools'' [] [(''authorization'', ''Bearer s3cret'')])
     (example_env (Some ''s3cret'') None)
   \<and> \<not> isAuthorized (example_request ''GET'' ''/mcp/tools'' [] [(''Authorization'', ''Basic s3cret'')])
     (example_env (Some ''s3cret'') None)
   \<and> \<not> isAuthorized (example_request ''GET'' ''/mcp/tools'' [] [(''Authorization'', ''Bearer s3cret'')])
     (example_env None None)
   \<and> \<not> constantTimeCompare ''abcd'' ''xbcd''
   \<and> positions_read ''abcd'' ''xbcd'' = [0, 1, 2, 3]
   \<and> positions_read ''abcd'' ''abc'' = []"
  using
    isAuthorized_bearer_secret
      [of "example_request ''GET'' ''/mcp/tools'' [] [(''authorization'', ''Bearer s3cret'')]"
          "example_env (Some ''s3cret'') None" "''abcd''" "''xbcd''"]
    isAuthorized_bearer_secret
      [of "example_request ''GET'' ''/mcp/tools'' [] [(''Authorization'', ''Basic s3cret'')]"
          "example_env (Some ''s3cret'') None" "''abcd''" "''abc''"]
    isAuthorized_bearer_secret
      [of "example_request ''GET'' ''/mcp/tools'' [] [(''Authorization'', ''Bearer s3cret'')]"
          "example_env None None" "''abcd''" "''abc''"]
  by (simp add: example_request_def example_env_def headers_get_def same_name_def byte_lower_def
      unit_eval upt_rec)

section \<open>Properties of the CORS policy resolver\<close>

lemma getCorsHeaders_unfold:
  "getCorsHeaders request e =
     (if startsWith (request_origin request) ''http://localhost:''
         \<or> startsWith (request_origin request) ''http://127.0.0.1:''
         \<or> request_origin request \<in> set (allowedOrigins e)
         \<or> ''*'' \<in> set (allowedOrigins e)
      then cors_headers_for (request_origin request) else [])"
  by (simp add: getCorsHeaders_def Let_def)

lemma allowed_a_example:
  "CORS_ALLOWED_ORIGINS e = Some ''https://a.example'' \<Longrightarrow> allowedOrigins e = [''https://a.example'']"
  by (simp add: allowedOrigins_def trim_def is_js_space_def)

lemma https_not_localhost:
  "\<not> startsWith (''https://'' @ r) ''http://localhost:''"
  "\<not> startsWith (''https://'' @ r) ''http://127.0.0.1:''"
  by (simp_all add: startsWith_def)

text \<open>
  Claim C1 as stated fails: the origin \<open>http://localhost:evil\<close> has no port after the
  colon, is in no allow-list and meets no wildcard, and the resolver still grants the
  four headers.
\<close>

theorem getCorsHeaders_counterexample:
  "getCorsHeaders (example_request ''GET'' ''/api/status'' [] [(''Origin'', ''http://localhost:evil'')])
       (example_env None None)
     = [(''Access-Control-Allow-Origin'', ''http://localhost:evil''),
        (''Access-Control-Allow-Methods'', ''GET, POST, PUT, DELETE, OPTIONS''),
        (''Access-Control-Allow-Headers'', ''Content-Type, Authorization''),
        (''Access-Control-Max-Age'', ''86400'')]
   \<and> spec_cors_headers
       (request_origin (example_request ''GET'' ''/api/status'' [] [(''Origin'', ''http://localhost:evil'')]))
       (allowedOrigins (example_env None None)) = []"
  by (simp add: getCorsHeaders_unfold spec_cors_headers_def spec_localhost_origin_def spec_port_def
      request_origin_def allowedOrigins_def example_env_def example_request_def headers_get_def
      same_name_def byte_lower_def unit_eval startsWith_def cors_headers_for_def)

text \<open>
  Claim C1, amended. \<open>getCorsHeaders\<close> returns the four headers, with the request
  origin echoed in \<open>Access-Control-Allow-Origin\<close>, exactly when the origin begins with
  \<open>http://localhost:\<close> or \<open>http://127.0.0.1:\<close> (whatever follows the colon), or is one
  of the trimmed pieces of the comma-separated allow-list, or the list has the piece
  \<open>*\<close>; otherwise it returns the empty map. With the allow-list
  \<open>https://a.example\<close>, the origin \<open>https://a.example:443\<close> and every subdomain get
  the empty map.
\<close>

theorem getCorsHeaders_decision:
  "getCorsHeaders request e =
     (if startsWith (request_origin request) ''http://localhost:''
         \<or> startsWith (request_origin request) ''http://127.0.0.1:''
         \<or> request_origin request \<in> set (allowedOrigins e)
         \<or> ''*'' \<in> set (allowedOrigins e)
      then [(''Access-Control-Allow-Origin'', request_origin request),
            (''Access-Control-Allow-Methods'', ''GET, POST, PUT, DELETE, OPTIONS''),
            (''Access-Control-Allow-Headers'', ''Content-Type, Authorization''),
            (''Access-Control-Max-Age'', ''86400'')]
      else [])
   \<and> (CORS_ALLOWED_ORIGINS e = Some ''https://a.example'' \<longrightarrow>
        (request_origin request = ''https://a.example:443''
           \<or> (\<exists>sub. request_origin request = ''https://'' @ sub @ ''.a.example'')) \<longrightarrow>
        getCorsHeaders request e = [])"
proof (intro conjI impI)
  show "getCorsHeaders request e =
     (if startsWith (request_origin request) ''http://localhost:''
         \<or> startsWith (request_origin request) ''http://127.0.0.1:''
         \<or> request_origin request \<in> set (allowedOrigins e)
         \<or> ''*'' \<in> set (allowedOrigins e)
      then [(''Access-Control-Allow-Origin'', request_origin request),
            (''Access-Control-Allow-Methods'', ''GET, POST, PUT, DELETE, OPTIONS''),
            (''Access-Control-Allow-Headers'', ''Content-Type, Authorization''),
            (''Access-Control-Max-Age'', ''86400'')]
      else [])"
    by (simp add: getCorsHeaders_unfold cors_headers_for_def)
next
  assume cfg: "CORS_ALLOWED_ORIGINS e = Some ''https://a.example''"
    and o: "request_origin request = ''https://a.example:443''
           \<or> (\<exists>sub. request_origin request = ''https://'' @ sub @ ''.a.example'')"
  from o obtain r where r: "request_origin request = ''https://'' @ r" and ne: "r \<noteq> ''a.example''"
  proof
    assume "request_origin request = ''https://a.example:443''"
    then show ?thesis by (intro that [of "''a.example:443''"]) simp_all
  next
    assume "\<exists>sub. request_origin request = ''https://'' @ sub @ ''.a.example''"
    then obtain sub where s: "request_origin request = ''https://'' @ sub @ ''.a.example''" by blast
    have "length (sub @ ''.a.example'') \<noteq> length ''a.example''" by simp
    then have "sub @ ''.a.example'' \<noteq> ''a.example''" by metis
    with s show ?thesis by (intro that [of "sub @ ''.a.example''"]) simp_all
  qed
  show "getCorsHeaders request e = []"
    using ne https_not_localhost [of r]
    by (simp add: getCorsHeaders_unfold allowed_a_example [OF cfg] r)
qed

theorem getCorsHeaders_decision_witness:
  "getCorsHeaders (example_request ''GET'' ''/api/status'' [] [(''Origin'', ''https://a.example:443'')])
       (example_env None (Some ''https://a.example'')) = []
   \<and> getCorsHeaders (example_request ''GET'' ''/api/status'' [] [(''Origin'', ''https://www.a.example'')])
       (example_env None (Some ''https://a.example'')) = []
   \<and> getCorsHeaders (example_request ''GET'' ''/api/status'' [] [(''Origin'', ''https://a.example'')])
       (example_env None (Some ''https://a.example''))
     = [(''Access-Control-Allow-Origin'', ''https://a.example''),
        (''Access-Control-Allow-Methods'', ''GET, POST, PUT, DELETE, OPTIONS''),
        (''Access-Control-Allow-Headers'', ''Content-Type, Authorization''),
        (''Access-Control-Max-Age'', ''86400'')]
   \<and> getCorsHeaders (example_request ''GET'' ''/api/status'' [] [(''Origin'', ''https://b.example'')])
       (example_env None (Some ''https://a.example, *''))
     = [(''Access-Control-Allow-Origin'', ''https://b.example''),
        (''Access-Control-Allow-Methods'', ''GET, POST, PUT, DELETE, OPTIONS''),
        (''Access-Control-Allow-Headers'', ''Content-Type, Authorization''),
        (''Access-Control-Max-Age'', ''86400'')]"
  using
    getCorsHeaders_decision
      [of "example_request ''GET'' ''/api/status'' [] [(''Origin'', ''https://a.example:443'')]"
          "example_env None (Some ''https://a.example'')"]
    getCorsHeaders_decision
      [of "example_request ''GET'' ''/api/status'' [] [(''Origin'', ''https://www.a.example'')]"
          "example_env None (Some ''https://a.example'')"]
    getCorsHeaders_decision
      [of "example_request ''GET'' ''/api/status'' [] [(''Origin'', ''https://a.example'')]"
          "example_env None (Some ''https://a.example'')"]
    getCorsHeaders_decision
      [of "example_request ''GET'' ''/api/status'' [] [(''Origin'', ''https://b.example'')]"
          "example_env None (Some ''https://a.example, *'')"]
  by (simp add: request_origin_def allowedOrigins_def example_env_def example_request_def
      headers_get_def same_name_def byte_lower_def unit_eval startsWith_def trim_def is_js_space_def)

text \<open>
  Claim C10. When the \<open>Origin\<close> header begins with \<open>http://localhost:\<close> or with
  \<open>http://127.0.0.1:\<close>, the resolver grants the four headers whatever follows the
  colon and whatever the allow-list is: the test is a test of the prefix.
\<close>

theorem localhost_prefix_grants:
  "headers_get (req_headers request) ''Origin'' = Some (''http://localhost:'' @ rest)
     \<or> headers_get (req_headers request) ''Origin'' = Some (''http://127.0.0.1:'' @ rest)
   \<Longrightarrow> getCorsHeaders request e =
     [(''Access-Control-Allow-Origin'', request_origin request),
      (''Access-Control-Allow-Methods'', ''GET, POST, PUT, DELETE, OPTIONS''),
      (''Access-Control-Allow-Headers'', ''Content-Type, Authorization''),
      (''Access-Control-Max-Age'', ''86400'')]"
proof -
  assume "headers_get (req_headers request) ''Origin'' = Some (''http://localhost:'' @ rest)
     \<or> headers_get (req_headers request) ''Origin'' = Some (''http://127.0.0.1:'' @ rest)"
  then have "request_origin request = ''http://localhost:'' @ rest
     \<or> request_origin request = ''http://127.0.0.1:'' @ rest"
    by (auto simp add: request_origin_def)
  then have "startsWith (request_origin request) ''http://localhost:''
     \<or> startsWith (request_origin request) ''http://127.0.0.1:''"
    by (auto simp add: startsWith_def)
  then show ?thesis
    by (auto simp add: getCorsHeaders_unfold cors_headers_for_def)
qed

theorem localhost_prefix_grants_witness:
  "getCorsHeaders (example_request ''GET'' ''/agent/x'' [] [(''origin'', ''http://localhost:evil'')])
       (example_env None (Some ''https://a.example''))
     = [(''Access-Control-Allow-Origin'', ''http://localhost:evil''),
        (''Access-Control-Allow-Methods'', ''GET, POST, PUT, DELETE, OPTIONS''),
        (''Access-Control-Allow-Headers'', ''Content-Type, Authorization''),
        (''Access-Control-Max-Age'', ''86400'')]"
proof -
  have h: "headers_get (req_headers (example_request ''GET'' ''/agent/x'' [] [(''origin'', ''http://localhost:evil'')])) ''Origin''
      = Some (''http://localhost:'' @ ''evil'')"
    by (simp add: example_request_def headers_get_def same_name_def byte_lower_def unit_eval)
  have o: "request_origin (example_request ''GET'' ''/agent/x'' [] [(''origin'', ''http://localhost:evil'')])
      = ''http://localhost:evil''"
    using h by (simp add: request_origin_def)
  show ?thesis
    using localhost_prefix_grants [OF disjI1 [OF h], of "example_env None (Some ''https://a.example'')"]
    by (simp add: o)
qed

section \<open>Properties of the router\<close>

lemma replace_first_prefix:
  "startsWith s p \<Longrightarrow> replace_first p r s = r @ drop (length p) s"
  by (cases s) (auto simp add: startsWith_def)

lemma same_name_sym: "same_name a b \<longleftrightarrow> same_name b a"
  by (auto simp add: same_name_def)

lemma filter_set_first_same:
  "list_ex (\<lambda>h. same_name (fst h) k) hs \<Longrightarrow>
   map snd (filter (\<lambda>h. same_name (fst h) k) (set_first k v hs)) = [v]"
proof (induction hs)
  case Nil
  then show ?case by simp
next
  case (Cons h hs)
  show ?case
  proof (cases "same_name (fst h) k")
    case True
    have "filter (\<lambda>h. same_name (fst h) k) (filter (\<lambda>h'. \<not> same_name (fst h') k) hs) = []"
      by (simp add: filter_empty_conv)
    with True show ?thesis by simp
  next
    case False
    with Cons show ?thesis by simp
  qed
qed

lemma filter_set_first_other:
  "\<not> same_name name k \<Longrightarrow>
   filter (\<lambda>h. same_name (fst h) name) (set_first k v hs) = filter (\<lambda>h. same_name (fst h) name) hs"
proof (induction hs)
  case Nil
  then show ?case by simp
next
  case (Cons h hs)
  show ?case
  proof (cases "same_name (fst h) k")
    case True
    have a: "\<not> same_name (fst h) name"
      using True Cons.prems by (auto simp add: same_name_def)
    have "filter (\<lambda>h. same_name (fst h) name) (filter (\<lambda>h'. \<not> same_name (fst h') k) hs)
        = filter (\<lambda>h. same_name (fst h) name) hs"
      using Cons.prems by (auto simp add: same_name_def intro!: filter_cong)
    with True a show ?thesis by simp
  next
    case False
    with Cons show ?thesis by simp
  qed
qed

lemma headers_get_set:
  "headers_get (headers_set hs k v) name = (if same_name name k then Some v else headers_get hs name)"
proof (cases "same_name name k")
  case True
  then have eq: "(\<lambda>h. same_name (fst h) name) = (\<lambda>h::string \<times> string. same_name (fst h) k)"
    by (auto simp add: same_name_def fun_eq_iff)
  show ?thesis
  proof (cases "list_ex (\<lambda>h. same_name (fst h) k) hs")
    case ex: True
    from filter_set_first_same [OF ex, of v]
    obtain x where x: "filter (\<lambda>h. same_name (fst h) k) (set_first k v hs) = [x]" and "snd x = v"
      by (auto simp add: map_eq_Cons_conv)
    then show ?thesis using True ex by (simp add: headers_get_def headers_set_def eq)
  next
    case nex: False
    then have "filter (\<lambda>h. same_name (fst h) k) hs = []"
      by (auto simp add: filter_empty_conv list_ex_iff)
    then show ?thesis using True nex
      by (simp add: headers_get_def headers_set_def eq same_name_def)
  qed
next
  case False
  then have nk: "\<not> same_name k name" by (simp add: same_name_def eq_commute)
  show ?thesis
    using False nk by (simp add: headers_get_def headers_set_def filter_set_first_other)
qed

lemma filter_others_set_first:
  "(\<And>h. Q h \<Longrightarrow> \<not> same_name (fst h) k) \<Longrightarrow> filter Q (set_first k v hs) = filter Q hs"
proof (induction hs)
  case Nil
  then show ?case by simp
next
  case (Cons h hs)
  show ?case
  proof (cases "same_name (fst h) k")
    case True
    have a: "\<not> Q h" "\<not> Q (fst h, v)"
      using True Cons.prems [of h] Cons.prems [of "(fst h, v)"] by auto
    have "filter Q (filter (\<lambda>h'. \<not> same_name (fst h') k) hs) = filter Q hs"
      using Cons.prems by (auto intro!: filter_cong)
    with True a show ?thesis by simp
  next
    case False
    with Cons show ?thesis by simp
  qed
qed

lemma filter_others_set:
  "(\<And>h. Q h \<Longrightarrow> \<not> same_name (fst h) k) \<Longrightarrow> filter Q (headers_set hs k v) = filter Q hs"
proof -
  assume q: "\<And>h. Q h \<Longrightarrow> \<not> same_name (fst h) k"
  have "\<not> Q (k, v)" using q [of "(k, v)"] by (auto simp add: same_name_def)
  then show ?thesis
    using q by (simp add: headers_set_def filter_others_set_first)
qed

lemma find_append:
  "find P (xs @ ys) = (case find P xs of None \<Rightarrow> find P ys | Some x \<Rightarrow> Some x)"
  by (induction xs) auto

lemma headers_get_overlay:
  "headers_get (foldl (\<lambda>hs kv. headers_set hs (fst kv) (snd kv)) hs cors) name =
     (case lookup_name (rev cors) name of Some v \<Rightarrow> Some v | None \<Rightarrow> headers_get hs name)"
proof (induction cors arbitrary: hs)
  case Nil
  then show ?case by (simp add: lookup_name_def)
next
  case (Cons kv cors)
  show ?case
    by (simp add: Cons.IH headers_get_set lookup_name_def find_append same_name_sym [of name]
        split: option.splits)
qed

lemma others_overlay:
  "(\<And>h. Q h \<Longrightarrow> lookup_name cors (fst h) = None) \<Longrightarrow>
   filter Q (foldl (\<lambda>hs kv. headers_set hs (fst kv) (snd kv)) hs cors) = filter Q hs"
proof (induction cors arbitrary: hs)
  case Nil
  then show ?case by simp
next
  case (Cons kv cors)
  have a: "\<And>h. Q h \<Longrightarrow> \<not> same_name (fst h) (fst kv)"
    using Cons.prems by (fastforce simp add: lookup_name_def same_name_def split: if_splits)
  have b: "\<And>h. Q h \<Longrightarrow> lookup_name cors (fst h) = None"
    using Cons.prems by (fastforce simp add: lookup_name_def split: if_splits)
  show ?case
    using Cons.IH [OF b] by (simp add: filter_others_set [of Q, OF a])
qed

lemma cors_names_lower:
  "map byte_lower ''Access-Control-Allow-Origin'' = ''access-control-allow-origin''"
  "map byte_lower ''Access-Control-Allow-Methods'' = ''access-control-allow-methods''"
  "map byte_lower ''Access-Control-Allow-Headers'' = ''access-control-allow-headers''"
  "map byte_lower ''Access-Control-Max-Age'' = ''access-control-max-age''"
  by (simp_all add: byte_lower_def unit_eval)

lemma lookup_name_rev_cors_for:
  "lookup_name (rev (cors_headers_for v)) name = lookup_name (cors_headers_for v) name"
proof -
  define l where "l = map byte_lower name"
  have s: "same_name k name \<longleftrightarrow> map byte_lower k = l" for k
    by (simp add: same_name_def l_def)
  show ?thesis
    unfolding lookup_name_def cors_headers_for_def
    by (simp only: s rev.simps append.simps find.simps fst_conv cors_names_lower) auto
qed

lemma lookup_name_rev_cors:
  "lookup_name (rev (getCorsHeaders request e)) name = lookup_name (getCorsHeaders request e) name"
  by (simp add: getCorsHeaders_unfold lookup_name_rev_cors_for)

lemma route_api:
  "req_method request \<noteq> ''OPTIONS'' \<Longrightarrow> startsWith (pathname (req_url request)) ''/api'' \<Longrightarrow>
   fetch now request e = proxy ''/api'' (getCorsHeaders request e) request e"
  by (auto simp add: fetch_def Let_def startsWith_def)

lemma route_agent:
  "req_method request \<noteq> ''OPTIONS'' \<Longrightarrow> startsWith (pathname (req_url request)) ''/agent'' \<Longrightarrow>
   fetch now request e = proxy ''/agent'' (getCorsHeaders request e) request e"
proof -
  assume m: "req_method request \<noteq> ''OPTIONS''" and p: "startsWith (pathname (req_url request)) ''/agent''"
  from p obtain r where r: "pathname (req_url request) = ''/agent'' @ r"
    by (auto simp add: startsWith_iff)
  show ?thesis
    using m by (simp add: fetch_def Let_def r startsWith_def)
qed

lemma route_proxy:
  "req_method request \<noteq> ''OPTIONS'' \<Longrightarrow> prefix = ''/api'' \<or> prefix = ''/agent'' \<Longrightarrow>
   startsWith (pathname (req_url request)) prefix \<Longrightarrow>
   fetch now request e = proxy prefix (getCorsHeaders request e) request e"
  using route_api route_agent by blast

lemma path_segments_plain:
  "list_all (\<lambda>seg. \<not> single_dot seg \<and> \<not> double_dot seg) segs \<Longrightarrow>
   path_segments path segs = path @ segs"
  by (induction path segs rule: path_segments.induct) simp_all

lemma resolve_path_simple:
  assumes "list_all (\<lambda>seg. \<not> single_dot seg \<and> \<not> double_dot seg)
             (split_str CHR ''/'' (if startsWith r ''/'' then drop 1 r else r))"
  shows "resolve_path r = (if startsWith r ''/'' then r else ''/'' @ r)"
proof -
  let ?rest = "if startsWith r ''/'' then drop 1 r else r"
  have "resolve_path r = ''/'' @ join_str ''/'' (split_str CHR ''/'' ?rest)"
    using assms by (simp add: resolve_path_def Let_def path_segments_plain)
  also have "\<dots> = ''/'' @ ?rest"
    using join_split_str [of "CHR ''/''" ?rest] by simp
  also have "\<dots> = (if startsWith r ''/'' then r else ''/'' @ r)"
    by (cases r) (auto simp add: startsWith_def)
  finally show ?thesis .
qed

lemma parsed_search_assigned:
  "parsed_search v \<Longrightarrow> plain_search v \<and> assigned_search v = v"
  by (cases v) (auto simp add: parsed_search_def plain_search_def assigned_search_def
      search_input_def startsWith_def)

lemma harness_URL_simple:
  assumes "simple_reference r" "parsed_search v"
  shows "harness_URL e r v =
           Inr \<lparr>url_origin = ''http://harness'',
                url_pathname = (if startsWith r ''/'' then r else ''/'' @ r),
                url_search = v\<rparr>"
  using assms parsed_search_assigned [OF assms(2)]
  by (simp add: harness_URL_def Let_def simple_reference_def resolve_path_simple)

lemma simple_status: "simple_reference ''/status''"
  by (simp add: simple_reference_def plain_path_unit_def is_alpha_def is_digit_def has_scheme_def
      startsWith_def single_dot_def double_dot_def byte_lower_def unit_eval)

lemma agentRequest_simple:
  assumes "startsWith (pathname (req_url request)) prefix"
    and "simple_reference (drop (length prefix) (pathname (req_url request)))"
    and "parsed_search (search (req_url request))"
  shows "agentRequest prefix request e =
     Inr \<lparr>agent_method = req_method request,
          agent_url = \<lparr>url_origin = ''http://harness'',
            url_pathname =
              (let r = drop (length prefix) (pathname (req_url request))
               in if r = [] then ''/status'' else if startsWith r ''/'' then r else ''/'' @ r),
            url_search = search (req_url request)\<rparr>,
          agent_headers = req_headers request, agent_body = req_body request\<rparr>"
proof (cases "drop (length prefix) (pathname (req_url request)) = []")
  case True
  then show ?thesis
    using assms(1,3) harness_URL_simple [OF simple_status assms(3), of e]
    by (simp add: agentRequest_def Let_def replace_first_prefix startsWith_def)
next
  case False
  then show ?thesis
    using assms(1) harness_URL_simple [OF assms(2,3), of e]
    by (simp add: agentRequest_def Let_def replace_first_prefix)
qed

lemmas url_eval = plain_path_unit_def is_alpha_def is_digit_def has_scheme_def scheme_unit_def
  single_dot_def double_dot_def byte_lower_def unit_eval startsWith_def

lemma harness_URL_ary:
  "harness_URL e ''ary'' [] =
     Inr \<lparr>url_origin = ''http://harness'', url_pathname = ''/ary'', url_search = []\<rparr>"
proof -
  have "simple_reference ''ary''" by (simp add: simple_reference_def url_eval)
  moreover have "parsed_search []" by (simp add: parsed_search_def)
  ultimately show ?thesis by (simp add: harness_URL_simple startsWith_def)
qed

lemma harness_URL_slashes: "harness_URL e ''//'' v = Inl TypeError"
  by (simp add: harness_URL_def Let_def url_eval)

text \<open>
  The responses that the handler makes from constants pass the checks of the
  constructor, and the parser of paths on some references.
\<close>

lemma new_Response_constants:
  "new_Response None 204 [] hs = Inr \<lparr>status = 204, statusText = [], headers = hs, body = None\<rparr>"
  "new_Response (Some b) 200 [] hs = Inr \<lparr>status = 200, statusText = [], headers = hs, body = Some b\<rparr>"
  "new_Response (Some b) 401 [] hs = Inr \<lparr>status = 401, statusText = [], headers = hs, body = Some b\<rparr>"
  by (simp_all add: new_Response_def reason_phrase_def null_body_status_def)

lemma resolve_path_examples:
  "resolve_path ''/status'' = ''/status''"
  "resolve_path ''ary'' = ''/ary''"
  "resolve_path ''/a/../b'' = ''/b''"
  "resolve_path ''/a/./b/'' = ''/a/b/''"
  "resolve_path ''../x'' = ''/x''"
  "resolve_path ''/a/%2E%2e'' = ''/''"
  "resolve_path ''/a//b'' = ''/a//b''"
  "resolve_path [] = ''/''"
  by (simp_all add: resolve_path_def url_eval)

lemma has_scheme_examples:
  "has_scheme ''http://x/y''" "has_scheme ''ary:foo''" "\<not> has_scheme ''ary/b:c''"
  "\<not> has_scheme ''/a:b''" "\<not> has_scheme ''1a:b''"
  by (simp_all add: url_eval)

text \<open>
  Claim C8 as stated fails: for the inbound path \<open>/apiary\<close> the prefix is matched and
  stripped, which leaves \<open>ary\<close>, and the harness is asked for \<open>/ary\<close>; and for the
  inbound path \<open>/api//\<close> the constructor of the URL throws, and nothing is forwarded.
\<close>

theorem dispatch_counterexample:
  "startsWith (pathname (req_url (example_request ''GET'' ''/apiary'' [] []))) ''/api''
   \<and> replace_first ''/api'' [] (pathname (req_url (example_request ''GET'' ''/apiary'' [] []))) = ''ary''
   \<and> agentRequest ''/api'' (example_request ''GET'' ''/apiary'' [] []) (example_env None None)
     = Inr \<lparr>agent_method = ''GET'',
            agent_url = \<lparr>url_origin = ''http://harness'', url_pathname = ''/ary'', url_search = []\<rparr>,
            agent_headers = [], agent_body = None\<rparr>
   \<and> fetch ''2026-01-01T00:00:00.000Z'' (example_request ''GET'' ''/api//'' [] [])
       (example_env None None) = Inl TypeError"
proof -
  have 1: "replace_first ''/api'' [] ''/apiary'' = ''ary''" "replace_first ''/api'' [] ''/api//'' = ''//''"
    by (simp_all add: startsWith_def)
  have 2: "agentRequest ''/api'' (example_request ''GET'' ''/apiary'' [] []) (example_env None None)
     = Inr \<lparr>agent_method = ''GET'',
            agent_url = \<lparr>url_origin = ''http://harness'', url_pathname = ''/ary'', url_search = []\<rparr>,
            agent_headers = [], agent_body = None\<rparr>"
    by (simp add: agentRequest_def Let_def example_request_def startsWith_def harness_URL_ary)
  have 3: "agentRequest ''/api'' (example_request ''GET'' ''/api//'' [] []) (example_env None None)
     = Inl TypeError"
    by (simp add: agentRequest_def Let_def example_request_def startsWith_def harness_URL_slashes)
  have 4: "fetch ''2026-01-01T00:00:00.000Z'' (example_request ''GET'' ''/api//'' [] [])
       (example_env None None)
      = proxy ''/api'' (getCorsHeaders (example_request ''GET'' ''/api//'' [] []) (example_env None None))
          (example_request ''GET'' ''/api//'' [] []) (example_env None None)"
    by (rule route_api) (simp_all add: example_request_def startsWith_def)
  show ?thesis
    unfolding 4 by (simp add: proxy_def 2 3) (simp add: example_request_def startsWith_def 1)
qed

text \<open>
  Claim C8, amended. For a request that the router dispatches (method other than
  \<open>OPTIONS\<close>, path beginning with the prefix \<open>/api\<close> or \<open>/agent\<close>) whose path after
  the prefix is a simple reference and whose query is one of a parsed URL, the harness
  is asked, on the origin \<open>http://harness\<close>, for \<open>/status\<close> when nothing is left
  after the prefix, for what is left when it begins with a slash, and for a slash
  followed by what is left otherwise, with the query string, method, headers and body
  of the inbound request. So \<open>/api\<close> goes to \<open>/status\<close>, \<open>/agent/foo?x=1\<close> to
  \<open>/foo?x=1\<close> and \<open>/apiary\<close> to \<open>/ary\<close>.
\<close>

theorem dispatch_strips_prefix:
  assumes "req_method request \<noteq> ''OPTIONS''"
    and "prefix = ''/api'' \<or> prefix = ''/agent''"
    and "startsWith (pathname (req_url request)) prefix"
    and "simple_reference (drop (length prefix) (pathname (req_url request)))"
    and "parsed_search (search (req_url request))"
  shows "\<exists>q. agentRequest prefix request e = Inr q
     \<and> q = \<lparr>agent_method = req_method request,
            agent_url = \<lparr>url_origin = ''http://harness'',
              url_pathname =
                (let r = drop (length prefix) (pathname (req_url request))
                 in if r = [] then ''/status'' else if startsWith r ''/'' then r else ''/'' @ r),
              url_search = search (req_url request)\<rparr>,
            agent_headers = req_headers request, agent_body = req_body request\<rparr>
     \<and> fetch now request e =
           (case HARNESS e q of
              Inl err \<Rightarrow> Inl err
            | Inr r \<Rightarrow> withCors (getCorsHeaders request e) r)"
  using route_proxy [OF assms(1-3)] agentRequest_simple [OF assms(3-5)]
  by (simp add: proxy_def)

theorem dispatch_strips_prefix_witness:
  "agentRequest ''/api'' (example_request ''GET'' ''/api'' [] []) (example_env None None)
     = Inr \<lparr>agent_method = ''GET'',
            agent_url = \<lparr>url_origin = ''http://harness'', url_pathname = ''/status'', url_search = []\<rparr>,
            agent_headers = [], agent_body = None\<rparr>
   \<and> agentRequest ''/agent'' (example_request ''POST'' ''/agent/foo'' ''?x=1'' []) (example_env None None)
     = Inr \<lparr>agent_method = ''POST'',
            agent_url = \<lparr>url_origin = ''http://harness'', url_pathname = ''/foo'', url_search = ''?x=1''\<rparr>,
            agent_headers = [], agent_body = None\<rparr>
   \<and> map_sum id body (fetch ''2026-01-01T00:00:00.000Z''
         (example_request ''POST'' ''/agent/foo'' ''?x=1'' []) (example_env None None))
     = Inr (Some ''/foo?x=1'')
   \<and> map_sum id body (fetch ''2026-01-01T00:00:00.000Z''
         (example_request ''GET'' ''/api'' [] []) (example_env None None))
     = Inr (Some ''/status'')
   \<and> map_sum id body (fetch ''2026-01-01T00:00:00.000Z''
         (example_request ''GET'' ''/apiary'' [] []) (example_env None None))
     = Inr (Some ''/ary'')"
proof -
  have s: "simple_reference []" "simple_reference ''/foo''" "simple_reference ''ary''"
    by (simp_all add: simple_reference_def plain_path_unit_def is_alpha_def is_digit_def
        has_scheme_def scheme_unit_def startsWith_def single_dot_def double_dot_def byte_lower_def
        unit_eval)
  have q: "parsed_search []" "parsed_search ''?x=1''"
    by (simp_all add: parsed_search_def plain_query_unit_def startsWith_def)
  have r: "new_Response (Some b) 200 ''OK'' hs
      = Inr \<lparr>status = 200, statusText = ''OK'', headers = hs, body = Some b\<rparr>" for b hs
    by (simp add: new_Response_def reason_phrase_def null_body_status_def)
  show ?thesis
    using
      dispatch_strips_prefix [of "example_request ''GET'' ''/api'' [] []" "''/api''"
        "example_env None None" "''2026-01-01T00:00:00.000Z''"]
      dispatch_strips_prefix [of "example_request ''POST'' ''/agent/foo'' ''?x=1'' []" "''/agent''"
        "example_env None None" "''2026-01-01T00:00:00.000Z''"]
      dispatch_strips_prefix [of "example_request ''GET'' ''/apiary'' [] []" "''/api''"
        "example_env None None" "''2026-01-01T00:00:00.000Z''"]
    by (simp add: example_request_def example_env_def startsWith_def withCors_def s q r)
qed

text \<open>
  Claim C9. For a proxied request and a response of the harness, the response that
  the router emits has the status, the status text and the body of that response;
  under every name its headers give the CORS value resolved from the inbound request
  if there is one, and what the harness' headers give otherwise; and the headers of
  every other name are the harness' headers, in number and order. The router emits
  this response whenever the constructor takes the harness' response: when its status
  is outside 200 to 599 the router throws a \<open>RangeError\<close>, and when its status text
  is no reason phrase, or it has a body with a status that has none, a \<open>TypeError\<close>.
\<close>

theorem proxied_response_frame:
  assumes "req_method request \<noteq> ''OPTIONS''"
    and "prefix = ''/api'' \<or> prefix = ''/agent''"
    and "startsWith (pathname (req_url request)) prefix"
    and "agentRequest prefix request e = Inr q"
    and "HARNESS e q = Inr r"
  shows "\<exists>hs.
       (\<forall>name. headers_get hs name =
           (case lookup_name (getCorsHeaders request e) name of
              Some v \<Rightarrow> Some v
            | None \<Rightarrow> headers_get (headers r) name))
     \<and> filter (\<lambda>h. lookup_name (getCorsHeaders request e) (fst h) = None) hs
       = filter (\<lambda>h. lookup_name (getCorsHeaders request e) (fst h) = None) (headers r)
     \<and> fetch now request e =
         (if status r < 200 \<or> 599 < status r then Inl RangeError
          else if \<not> reason_phrase (statusText r) \<or> (body r \<noteq> None \<and> null_body_status (status r))
          then Inl TypeError
          else Inr \<lparr>status = status r, statusText = statusText r, headers = hs, body = body r\<rparr>)"
proof -
  let ?cors = "getCorsHeaders request e"
  let ?hs = "foldl (\<lambda>hs kv. headers_set hs (fst kv) (snd kv)) (headers r) ?cors"
  have f: "fetch now request e = new_Response (body r) (status r) (statusText r) ?hs"
    using route_proxy [OF assms(1-3)] assms(4,5) by (simp add: proxy_def withCors_def Let_def)
  have g: "headers_get ?hs name =
           (case lookup_name ?cors name of Some v \<Rightarrow> Some v | None \<Rightarrow> headers_get (headers r) name)"
    for name
    by (simp add: headers_get_overlay lookup_name_rev_cors)
  have o: "filter (\<lambda>h. lookup_name ?cors (fst h) = None) ?hs
       = filter (\<lambda>h. lookup_name ?cors (fst h) = None) (headers r)"
    by (simp add: others_overlay)
  have n: "new_Response (body r) (status r) (statusText r) ?hs =
         (if status r < 200 \<or> 599 < status r then Inl RangeError
          else if \<not> reason_phrase (statusText r) \<or> (body r \<noteq> None \<and> null_body_status (status r))
          then Inl TypeError
          else Inr \<lparr>status = status r, statusText = statusText r, headers = ?hs, body = body r\<rparr>)"
    by (auto simp add: new_Response_def)
  show ?thesis
  proof (rule exI [of _ ?hs], intro conjI allI)
    show "fetch now request e =
         (if status r < 200 \<or> 599 < status r then Inl RangeError
          else if \<not> reason_phrase (statusText r) \<or> (body r \<noteq> None \<and> null_body_status (status r))
          then Inl TypeError
          else Inr \<lparr>status = status r, statusText = statusText r, headers = ?hs, body = body r\<rparr>)"
      unfolding f by (rule n)
  qed (rule g, rule o)
qed


theorem proxied_response_frame_witness:
  "(\<exists>out. fetch ''2026-01-01T00:00:00.000Z''
            (example_request ''GET'' ''/api'' [] [(''Origin'', ''http://localhost:5173'')])
            (example_env None None) = Inr out
     \<and> status out = 200 \<and> statusText out = ''OK'' \<and> body out = Some ''/status''
     \<and> headers_get (headers out) ''Access-Control-Allow-Origin'' = Some ''http://localhost:5173''
     \<and> headers_get (headers out) ''Access-Control-Max-Age'' = Some ''86400''
     \<and> headers_get (headers out) ''Set-Cookie'' = Some ''a=1, b=2''
     \<and> headers_get (headers out) ''Content-Type'' = Some ''text/plain'')
   \<and> fetch ''2026-01-01T00:00:00.000Z''
        (example_request ''GET'' ''/api'' [] [(''Origin'', ''http://localhost:5173'')])
        ((example_env None None)
           \<lparr>HARNESS := (\<lambda>q. Inr \<lparr>status = 101, statusText = ''Switching Protocols'',
                                  headers = [], body = None\<rparr>)\<rparr>)
      = Inl RangeError"
proof -
  let ?R = "example_request ''GET'' ''/api'' [] [(''Origin'', ''http://localhost:5173'')]"
  let ?E = "example_env None None"
  let ?E' = "?E\<lparr>HARNESS := (\<lambda>q. Inr \<lparr>status = 101, statusText = ''Switching Protocols'',
                                  headers = [], body = None\<rparr>)\<rparr>"
  let ?q = "\<lparr>agent_method = ''GET'',
            agent_url = \<lparr>url_origin = ''http://harness'', url_pathname = ''/status'', url_search = []\<rparr>,
            agent_headers = [(''Origin'', ''http://localhost:5173'')], agent_body = None\<rparr>"
  let ?r = "\<lparr>status = 200, statusText = ''OK'',
             headers = [(''Content-Type'', ''text/plain''), (''access-control-allow-origin'', ''*''),
                        (''Set-Cookie'', ''a=1''), (''Set-Cookie'', ''b=2'')],
             body = Some ''/status''\<rparr>"
  let ?r' = "\<lparr>status = 101, statusText = ''Switching Protocols'', headers = [], body = None\<rparr>"
  have m: "req_method ?R \<noteq> ''OPTIONS''" by (simp add: example_request_def)
  have p: "startsWith (pathname (req_url ?R)) ''/api''"
    by (simp add: example_request_def startsWith_def)
  have a: "agentRequest ''/api'' ?R e = Inr ?q" for e
    using agentRequest_simple [of ?R "''/api''" e]
    by (simp add: example_request_def simple_reference_def parsed_search_def url_eval)
  have h: "HARNESS ?E ?q = Inr ?r" "HARNESS ?E' ?q = Inr ?r'"
    by (simp_all add: example_env_def)
  have c: "getCorsHeaders ?R ?E = cors_headers_for ''http://localhost:5173''"
    by (simp add: getCorsHeaders_unfold request_origin_def example_request_def headers_get_def
        same_name_def byte_lower_def unit_eval startsWith_def)
  have k: "reason_phrase ''OK''" "\<not> null_body_status 200"
    by (simp_all add: reason_phrase_def null_body_status_def)
  from proxied_response_frame [OF m disjI1 [OF refl] p a h(1), of "''2026-01-01T00:00:00.000Z''"]
  obtain hs where hs:
      "\<And>name. headers_get hs name =
           (case lookup_name (getCorsHeaders ?R ?E) name of
              Some v \<Rightarrow> Some v
            | None \<Rightarrow> headers_get (headers ?r) name)"
      "fetch ''2026-01-01T00:00:00.000Z'' ?R ?E =
         Inr \<lparr>status = 200, statusText = ''OK'', headers = hs, body = Some ''/status''\<rparr>"
    using k by auto
  have g: "headers_get hs ''Access-Control-Allow-Origin'' = Some ''http://localhost:5173''"
    "headers_get hs ''Access-Control-Max-Age'' = Some ''86400''"
    "headers_get hs ''Set-Cookie'' = Some ''a=1, b=2''"
    "headers_get hs ''Content-Type'' = Some ''text/plain''"
    unfolding hs(1) c
    by (simp_all add: lookup_name_def cors_headers_for_def headers_get_def same_name_def
        byte_lower_def unit_eval)
  have 1: "\<exists>out. fetch ''2026-01-01T00:00:00.000Z'' ?R ?E = Inr out
     \<and> status out = 200 \<and> statusText out = ''OK'' \<and> body out = Some ''/status''
     \<and> headers_get (headers out) ''Access-Control-Allow-Origin'' = Some ''http://localhost:5173''
     \<and> headers_get (headers out) ''Access-Control-Max-Age'' = Some ''86400''
     \<and> headers_get (headers out) ''Set-Cookie'' = Some ''a=1, b=2''
     \<and> headers_get (headers out) ''Content-Type'' = Some ''text/plain''"
    using hs(2) g by simp
  have 2: "fetch ''2026-01-01T00:00:00.000Z'' ?R ?E' = Inl RangeError"
    using proxied_response_frame [OF m disjI1 [OF refl] p a h(2), of "''2026-01-01T00:00:00.000Z''"]
    by auto
  from 1 2 show ?thesis by blast
qed

lemma unauthorizedResponse_value:
  "unauthorizedResponse [] =
     \<lparr>status = 401, statusText = [], headers = [(''Content-Type'', ''application/json'')],
      body = Some unauthorized_body\<rparr>"
  by (simp add: unauthorizedResponse_def unauthorized_body_def JSON_stringify_obj_def JSON_quote_def
      JSON_quote_unit_def)

text \<open>
  Claim C7, amended. For a request with a method other than \<open>OPTIONS\<close> and a path
  beginning with \<open>/mcp\<close> that fails the guard, the router answers 401 with the body
  \<open>{"error":"Unauthorized. Requires: Authorization: Bearer <MAHORAGA_API_TOKEN>"}\<close> and
  the single header \<open>Content-Type: application/json\<close>, so with no CORS header. The
  router also adds no CORS header to what the mounted agent answers to an authorized
  request, to what the asset binding answers or to the health response; a request with
  the method \<open>OPTIONS\<close> gets the 204 response that carries the resolved CORS headers,
  whatever its path.
\<close>

theorem mcp_unauthorized_401:
  "(req_method request \<noteq> ''OPTIONS'' \<and> startsWith (pathname (req_url request)) ''/mcp''
      \<and> \<not> isAuthorized request e \<longrightarrow>
    fetch now request e =
      Inr \<lparr>status = 401, statusText = [], headers = [(''Content-Type'', ''application/json'')],
           body = Some unauthorized_body\<rparr>)
   \<and> (req_method request \<noteq> ''OPTIONS'' \<and> startsWith (pathname (req_url request)) ''/mcp''
      \<and> isAuthorized request e \<longrightarrow>
    fetch now request e = MCP_AGENT e request)
   \<and> (req_method request \<noteq> ''OPTIONS'' \<and> pathname (req_url request) \<noteq> ''/health''
      \<and> \<not> startsWith (pathname (req_url request)) ''/api''
      \<and> \<not> startsWith (pathname (req_url request)) ''/mcp''
      \<and> \<not> startsWith (pathname (req_url request)) ''/agent'' \<longrightarrow>
    fetch now request e = ASSETS e request)
   \<and> (req_method request \<noteq> ''OPTIONS'' \<and> pathname (req_url request) = ''/health'' \<longrightarrow>
    (\<exists>b. fetch now request e =
      Inr \<lparr>status = 200, statusText = [], headers = [(''Content-Type'', ''application/json'')],
           body = Some b\<rparr>))
   \<and> (req_method request = ''OPTIONS'' \<longrightarrow>
    fetch now request e =
      Inr \<lparr>status = 204, statusText = [], headers = getCorsHeaders request e, body = None\<rparr>)"
proof -
  have mcp: "pathname (req_url request) \<noteq> ''/health'' \<and> \<not> startsWith (pathname (req_url request)) ''/api''"
    if "startsWith (pathname (req_url request)) ''/mcp''"
  proof -
    from that obtain r where "pathname (req_url request) = ''/mcp'' @ r"
      by (auto simp add: startsWith_iff)
    then show ?thesis by (simp add: startsWith_def)
  qed
  show ?thesis
    using mcp by (auto simp add: fetch_def Let_def unauthorizedResponse_value)
qed

theorem mcp_unauthorized_401_witness:
  "fetch ''2026-01-01T00:00:00.000Z'' (example_request ''GET'' ''/mcp/tools'' [] [])
       (example_env (Some ''s3cret'') (Some ''*''))
     = Inr \<lparr>status = 401, statusText = [], headers = [(''Content-Type'', ''application/json'')],
            body = Some unauthorized_body\<rparr>
   \<and> fetch ''2026-01-01T00:00:00.000Z''
       (example_request ''GET'' ''/mcp/tools'' [] [(''Authorization'', ''Bearer s3cret'')])
       (example_env (Some ''s3cret'') (Some ''*''))
     = Inr \<lparr>status = 200, statusText = ''OK'', headers = [], body = Some ''mcp''\<rparr>
   \<and> fetch ''2026-01-01T00:00:00.000Z''
       (example_request ''GET'' ''/index.html'' [] [(''Origin'', ''http://localhost:5173'')])
       (example_env (Some ''s3cret'') (Some ''*''))
     = Inr \<lparr>status = 200, statusText = ''OK'', headers = [(''Content-Type'', ''text/html'')],
            body = Some ''index''\<rparr>"
  using
    mcp_unauthorized_401 [of "example_request ''GET'' ''/mcp/tools'' [] []"
      "example_env (Some ''s3cret'') (Some ''*'')" "''2026-01-01T00:00:00.000Z''"]
    mcp_unauthorized_401
      [of "example_request ''GET'' ''/mcp/tools'' [] [(''Authorization'', ''Bearer s3cret'')]"
      "example_env (Some ''s3cret'') (Some ''*'')" "''2026-01-01T00:00:00.000Z''"]
    mcp_unauthorized_401
      [of "example_request ''GET'' ''/index.html'' [] [(''Origin'', ''http://localhost:5173'')]"
      "example_env (Some ''s3cret'') (Some ''*'')" "''2026-01-01T00:00:00.000Z''"]
  by (simp add: example_request_def example_env_def startsWith_def isAuthorized_def headers_get_def
      same_name_def byte_lower_def unit_eval constantTimeCompare_eq slice_from_def)

text \<open>
  Claim C7 as stated fails: an \<open>OPTIONS\<close> request to \<open>/mcp/tools\<close> that fails the guard
  gets 204, not 401; the 401 body names \<open><MAHORAGA_API_TOKEN>\<close>, not \<open><token>\<close>; and
  the response of the asset binding goes out without CORS headers though the origin is
  allowed.
\<close>

theorem mcp_unauthorized_counterexample:
  "startsWith (pathname (req_url (example_request ''OPTIONS'' ''/mcp/tools'' [] []))) ''/mcp''
   \<and> \<not> isAuthorized (example_request ''OPTIONS'' ''/mcp/tools'' [] []) (example_env (Some ''s3cret'') None)
   \<and> fetch ''2026-01-01T00:00:00.000Z'' (example_request ''OPTIONS'' ''/mcp/tools'' [] [])
        (example_env (Some ''s3cret'') None)
      = Inr \<lparr>status = 204, statusText = [], headers = [], body = None\<rparr>
   \<and> body (unauthorizedResponse []) \<noteq>
       Some (JSON_stringify_obj
         [(''error'', Some ''Unauthorized. Requires: Authorization: Bearer <token>'')])
   \<and> fetch ''2026-01-01T00:00:00.000Z''
       (example_request ''GET'' ''/index.html'' [] [(''Origin'', ''http://localhost:5173'')])
       (example_env (Some ''s3cret'') None)
     = Inr \<lparr>status = 200, statusText = ''OK'', headers = [(''Content-Type'', ''text/html'')],
            body = Some ''index''\<rparr>"
  by (simp add: example_request_def example_env_def startsWith_def isAuthorized_def headers_get_def
      same_name_def byte_lower_def unit_eval fetch_def Let_def getCorsHeaders_unfold
      request_origin_def allowedOrigins_def unauthorizedResponse_def JSON_stringify_obj_def
      JSON_quote_def JSON_quote_unit_def)

section \<open>Properties of the completion provider adapter\<close>

lemma includes_str_iff: "includes_str s p \<longleftrightarrow> (\<exists>u v. s = u @ p @ v)"
proof (induction s)
  case Nil
  then show ?case by auto
next
  case (Cons c cs)
  show ?case
  proof
    assume "includes_str (c # cs) p"
    then consider "startsWith (c # cs) p" | "includes_str cs p" by auto
    then show "\<exists>u v. c # cs = u @ p @ v"
    proof cases
      case 1
      then obtain r where "c # cs = p @ r" by (auto simp add: startsWith_iff)
      then have "c # cs = [] @ p @ r" by simp
      then show ?thesis by blast
    next
      case 2
      with Cons obtain u v where "cs = u @ p @ v" by blast
      then have "c # cs = (c # u) @ p @ v" by simp
      then show ?thesis by blast
    qed
  next
    assume "\<exists>u v. c # cs = u @ p @ v"
    then obtain u v where uv: "c # cs = u @ p @ v" by blast
    show "includes_str (c # cs) p"
    proof (cases u)
      case Nil
      with uv have "startsWith (c # cs) p" by (auto simp add: startsWith_iff)
      then show ?thesis by simp
    next
      case (Cons d u')
      with uv have "cs = u' @ p @ v" by simp
      with Cons.IH have "includes_str cs p" by blast
      then show ?thesis by simp
    qed
  qed
qed

lemma complete_network_cong:
  "network (complete_request this params) = network' (complete_request this params) \<Longrightarrow>
   complete this network params = complete this network' params"
  by (simp add: complete_def)

lemma complete2_network_cong:
  "network (complete_request2 this params) = network' (complete_request2 this params) \<Longrightarrow>
   complete2 this network params = complete2 this network' params"
  by (simp add: complete2_def)

lemma provider_error_message:
  "provider_error r =
     AppError PROVIDER_ERROR (''Z.AI API error ('' @ show_nat (http_status r) @ ''): '' @ body_text r)"
  by (simp add: provider_error_def createError_def)

lemma complete_not_ok:
  "network (complete_request this params) = Inr r \<Longrightarrow> \<not> ok r \<Longrightarrow>
   complete this network params = Inl (provider_error r)"
  by (simp add: complete_def bind_err_def)

lemma complete2_not_ok:
  "network (complete_request2 this params) = Inr r \<Longrightarrow> \<not> ok r \<Longrightarrow>
   complete2 this network params = Inl (provider_error r)"
  by (simp add: complete2_def bind_err_def)

lemma read_usage_eq:
  "read_usage data =
     (if nullish data \<or> nullish (prop_of data ''usage'') then Inl TypeError else Inr (usage_of data))"
  by (simp add: read_usage_def get_prop_def bind_err_def usage_of_def)

lemma first_choice_eq:
  "first_choice data =
     (if nullish data \<or> nullish (prop_of data ''choices'') then Inl TypeError
      else Inr (index_of (prop_of data ''choices'') 0))"
  by (simp add: first_choice_def get_prop_def get_index_def bind_err_def)

lemma first_content_eq:
  "first_content data =
     (if nullish data \<or> nullish (prop_of data ''choices'') then Inl TypeError
      else Inr (content_path data))"
  by (simp add: first_content_def first_choice_eq bind_err_def content_path_def)

lemma complete2_ok:
  "network (complete_request2 this params) = Inr r \<Longrightarrow> ok r \<Longrightarrow> body_json r = Some data \<Longrightarrow>
   complete2 this network params =
     (if nullish data \<or> nullish (prop_of data ''choices'') \<or> nullish (prop_of data ''usage'')
      then Inl TypeError
      else Inr \<lparr>result_content = (if nullish (content_path data) then JStr [] else content_path data),
                usage = usage_of data\<rparr>)"
  by (simp add: complete2_def bind_err_def first_content_eq read_usage_eq Let_def)

lemma opt_substring_200_cases:
  "opt_substring_200 c =
     (if nullish c then Inr Undefined
      else if is_string c then Inr (JStr (take 200 (case c of JStr s \<Rightarrow> s | _ \<Rightarrow> [])))
      else Inl TypeError)"
  by (cases c) (simp_all add: opt_substring_200_def nullish_def is_string_def)

lemma response_log_raises:
  assumes "nullish data \<or> nullish (prop_of data ''choices'')
     \<or> (\<not> nullish (content_path data) \<and> \<not> is_string (content_path data))"
  shows "response_log data = Inl TypeError"
proof (cases "nullish data")
  case True
  then show ?thesis by (simp add: response_log_def get_prop_def bind_err_def)
next
  case d: False
  show ?thesis
  proof (cases "nullish (prop_of data ''choices'')")
    case True
    with d show ?thesis by (simp add: response_log_def get_prop_def bind_err_def)
  next
    case False
    with d assms have "\<not> nullish (content_path data)" "\<not> is_string (content_path data)"
      by blast+
    with d False show ?thesis
      by (simp add: response_log_def get_prop_def bind_err_def first_content_eq
          opt_substring_200_cases)
  qed
qed

lemma response_log_returns:
  assumes "\<not> nullish data" "\<not> nullish (prop_of data ''choices'')"
    and "nullish (content_path data) \<or> is_string (content_path data)"
  shows "\<exists>logged. response_log data = Inr logged"
proof (cases "nullish (content_path data)")
  case True
  with assms(1,2) show ?thesis
    by (simp add: response_log_def get_prop_def bind_err_def first_content_eq first_choice_eq
        opt_substring_200_cases)
next
  case False
  with assms(3) have "is_string (content_path data)" by blast
  with False assms(1,2) show ?thesis
    by (simp add: response_log_def get_prop_def bind_err_def first_content_eq first_choice_eq
        opt_substring_200_cases)
qed

lemma empty_check_returns:
  "nullish c \<or> is_string c \<Longrightarrow>
   \<exists>b. (if \<not> truthy (if nullish c then JStr [] else c) then Inr True
        else trim_is_empty (if nullish c then JStr [] else c)) = Inr b"
  by (cases c) (auto simp add: nullish_def is_string_def trim_is_empty_def)

lemma complete_ok:
  "network (complete_request this params) = Inr r \<Longrightarrow> ok r \<Longrightarrow> body_json r = Some data \<Longrightarrow>
   complete this network params =
     (if nullish data \<or> nullish (prop_of data ''choices'')
         \<or> (\<not> nullish (content_path data) \<and> \<not> is_string (content_path data))
         \<or> nullish (prop_of data ''usage'')
      then Inl TypeError
      else Inr \<lparr>result_content = (if nullish (content_path data) then JStr [] else content_path data),
                usage = usage_of data\<rparr>)"
proof -
  assume a: "network (complete_request this params) = Inr r" "ok r" "body_json r = Some data"
  let ?bad = "nullish data \<or> nullish (prop_of data ''choices'')
         \<or> (\<not> nullish (content_path data) \<and> \<not> is_string (content_path data))"
  have c: "complete this network params = bind_err (response_log data) (\<lambda>logged.
                 bind_err (first_content data) (\<lambda>c.
                 let content_value = (if nullish c then JStr [] else c) in
                 bind_err (first_choice data) (\<lambda>ch.
                 let reasoningContent = opt_prop (opt_prop ch ''message'') ''reasoning_content'' in
                 bind_err (if \<not> truthy content_value then Inr True
                           else trim_is_empty content_value) (\<lambda>is_empty.
                 bind_err (read_usage data) (\<lambda>u.
                   Inr \<lparr>result_content = content_value, usage = u\<rparr>)))))"
    using a by (simp add: complete_def bind_err_def)
  show ?thesis
  proof (cases ?bad)
    case True
    then show ?thesis
      unfolding c response_log_raises [OF True] using True by (auto simp add: bind_err_def)
  next
    case False
    then have ok: "\<not> nullish data" "\<not> nullish (prop_of data ''choices'')"
      "nullish (content_path data) \<or> is_string (content_path data)"
      by blast+
    from response_log_returns [OF ok] obtain logged where l: "response_log data = Inr logged" by blast
    from empty_check_returns [OF ok(3)] obtain b where
      b: "(if \<not> truthy (if nullish (content_path data) then JStr [] else content_path data) then Inr True
        else trim_is_empty (if nullish (content_path data) then JStr [] else content_path data)) = Inr b"
      by blast
    have f: "first_content data = Inr (content_path data)"
      "first_choice data = Inr (index_of (prop_of data ''choices'') 0)"
      using ok by (simp_all add: first_content_eq first_choice_eq)
    have "complete this network params =
        bind_err (read_usage data) (\<lambda>u.
          Inr \<lparr>result_content = (if nullish (content_path data) then JStr [] else content_path data),
               usage = u\<rparr>)"
      unfolding c l f by (simp add: bind_err_def Let_def b)
    then show ?thesis
      using False ok by (simp add: read_usage_eq bind_err_def)
  qed
qed

lemma includes_str_window:
  "includes_str s p \<longleftrightarrow> (\<exists>i\<le>length s. take (length p) (drop i s) = p)"
proof
  assume "includes_str s p"
  then obtain u v where "s = u @ p @ v" by (auto simp add: includes_str_iff)
  then have "length u \<le> length s \<and> take (length p) (drop (length u) s) = p" by simp
  then show "\<exists>i\<le>length s. take (length p) (drop i s) = p" by blast
next
  assume "\<exists>i\<le>length s. take (length p) (drop i s) = p"
  then obtain i where i: "take (length p) (drop i s) = p" by blast
  have "s = take i s @ drop i s" by simp
  also have "drop i s = take (length p) (drop i s) @ drop (length p) (drop i s)"
    by (simp only: append_take_drop_id)
  finally have "s = take i s @ take (length p) (drop i s) @ drop (length p) (drop i s)" .
  with i have "s = take i s @ p @ drop (length p) (drop i s)" by simp
  then show "includes_str s p" unfolding includes_str_iff by blast
qed

lemma contains_ci_iff: "contains_ci s p \<longleftrightarrow> includes_str (toLowerCase s) p"
proof -
  have "contains_ci s p \<longleftrightarrow> (\<exists>i\<le>length s. toLowerCase (take (length p) (drop i s)) = p)"
  proof -
    have "set [0..<Suc (length s)] = {i. i \<le> length s}" by auto
    then show ?thesis unfolding contains_ci_def list_ex_iff by blast
  qed
  also have "\<dots> \<longleftrightarrow> (\<exists>i\<le>length (toLowerCase s). take (length p) (drop i (toLowerCase s)) = p)"
    by (simp add: toLowerCase_def take_map drop_map)
  also have "\<dots> \<longleftrightarrow> includes_str (toLowerCase s) p"
    by (simp add: includes_str_window)
  finally show ?thesis .
qed

lemma isNonZAIModel_iff:
  "isNonZAIModel (toLowerCase s) \<longleftrightarrow>
     contains_ci s ''gpt'' \<or> contains_ci s ''claude'' \<or> contains_ci s ''gemini''"
  by (simp add: isNonZAIModel_def contains_ci_iff)

text \<open>
  Claim C3 as stated fails: the revision without \<open>normalizeModel\<close> sends the model
  \<open>gpt-4\<close> as it is, though its default is \<open>GLM-4.7\<close>; and the revision with
  \<open>normalizeModel\<close> replaces the empty model string, which has no fragment of another
  family, by the default.
\<close>

theorem model_rewrite_counterexample:
  "body_model (http_body (complete_request2 (new_ZAIProvider2 example_config)
       (example_params (Some ''gpt-4'')))) = ''gpt-4''
   \<and> this_model (new_ZAIProvider2 example_config) = ''GLM-4.7''
   \<and> body_model (http_body (complete_request (new_ZAIProvider example_config)
       (example_params (Some [])))) = ''GLM-4.7''"
  by (simp add: complete_request2_def complete_request_def build_request_def new_ZAIProvider2_def
      new_ZAIProvider_def example_config_def example_params_def normalizeModel_def Let_def
      isNonZAIModel_def)

text \<open>
  Claim C3, amended. In the revision with \<open>normalizeModel\<close>, a caller's model that is
  not empty and contains \<open>gpt\<close>, \<open>claude\<close> or \<open>gemini\<close> in any case is replaced by
  the adapter's own model, any other model that is not empty is sent unchanged, and an
  empty or absent model gives the adapter's own model. The revision without
  \<open>normalizeModel\<close> sends every model of the caller unchanged. In both, the request
  so built is the one request on which the result depends on the network.
\<close>

theorem normalizeModel_rewrites:
  "(given \<noteq> [] \<longrightarrow>
      body_model (http_body (complete_request this (params\<lparr>params_model := Some given\<rparr>))) =
        (if contains_ci given ''gpt'' \<or> contains_ci given ''claude'' \<or> contains_ci given ''gemini''
         then this_model this else given))
   \<and> body_model (http_body (complete_request this (params\<lparr>params_model := Some []\<rparr>))) = this_model this
   \<and> body_model (http_body (complete_request this (params\<lparr>params_model := None\<rparr>))) = this_model this
   \<and> body_model (http_body (complete_request2 this (params\<lparr>params_model := Some given\<rparr>))) = given
   \<and> complete this network params =
       complete this (\<lambda>q. if q = complete_request this params then network q else Inl (Rejected [])) params
   \<and> complete2 this network params =
       complete2 this (\<lambda>q. if q = complete_request2 this params then network q else Inl (Rejected [])) params"
proof -
  have 1: "complete this network params =
       complete this (\<lambda>q. if q = complete_request this params then network q else Inl (Rejected [])) params"
    by (rule complete_network_cong) simp
  have 2: "complete2 this network params =
       complete2 this (\<lambda>q. if q = complete_request2 this params then network q else Inl (Rejected [])) params"
    by (rule complete2_network_cong) simp
  have 3: "given \<noteq> [] \<longrightarrow>
      body_model (http_body (complete_request this (params\<lparr>params_model := Some given\<rparr>))) =
        (if contains_ci given ''gpt'' \<or> contains_ci given ''claude'' \<or> contains_ci given ''gemini''
         then this_model this else given)"
    by (simp add: complete_request_def build_request_def normalizeModel_def isNonZAIModel_iff)
  have 4: "body_model (http_body (complete_request this (params\<lparr>params_model := Some []\<rparr>))) = this_model this"
    "body_model (http_body (complete_request this (params\<lparr>params_model := None\<rparr>))) = this_model this"
    "body_model (http_body (complete_request2 this (params\<lparr>params_model := Some given\<rparr>))) = given"
    by (simp_all add: complete_request_def complete_request2_def build_request_def normalizeModel_def)
  from 1 2 3 4 show ?thesis by blast
qed

theorem normalizeModel_rewrites_witness:
  "body_model (http_body (complete_request (new_ZAIProvider example_config)
       (example_params (Some ''gpt-4'')))) = ''GLM-4.7''
   \<and> body_model (http_body (complete_request (new_ZAIProvider example_config)
       (example_params (Some ''custom-llm-7'')))) = ''custom-llm-7''
   \<and> body_model (http_body (complete_request
       (new_ZAIProvider \<lparr>apiKey = ''zai-test'', model = Some ''zai-default'', baseUrl = None\<rparr>)
       (example_params (Some ''My-Claude-3'')))) = ''zai-default''"
proof -
  have p: "example_params (Some m) = (example_params None)\<lparr>params_model := Some m\<rparr>" for m
    by (simp add: example_params_def)
  have c: "contains_ci ''gpt-4'' ''gpt''" "\<not> contains_ci ''custom-llm-7'' ''gpt''"
    "\<not> contains_ci ''custom-llm-7'' ''claude''" "\<not> contains_ci ''custom-llm-7'' ''gemini''"
    "contains_ci ''My-Claude-3'' ''claude''"
    by (simp_all add: contains_ci_iff toLowerCase_def lower_unit_def unit_eval startsWith_def)
  have m: "this_model (new_ZAIProvider example_config) = ''GLM-4.7''"
    "this_model (new_ZAIProvider \<lparr>apiKey = ''zai-test'', model = Some ''zai-default'', baseUrl = None\<rparr>)
      = ''zai-default''"
    by (simp_all add: new_ZAIProvider_def example_config_def Let_def isNonZAIModel_def
        toLowerCase_def lower_unit_def unit_eval startsWith_def)
  show ?thesis
    using normalizeModel_rewrites [of "''gpt-4''" "new_ZAIProvider example_config" "example_params None"]
      normalizeModel_rewrites [of "''custom-llm-7''" "new_ZAIProvider example_config" "example_params None"]
      normalizeModel_rewrites [of "''My-Claude-3''"
        "new_ZAIProvider \<lparr>apiKey = ''zai-test'', model = Some ''zai-default'', baseUrl = None\<rparr>"
        "example_params None"]
    unfolding p by (simp add: c m)
qed

text \<open>
  Claim C4. When the backend answers with a status outside 200 to 299, \<open>complete\<close>
  raises the error with the code \<open>PROVIDER_ERROR\<close> and the message \<open>Z.AI API error\<close>,
  the decimal status in parentheses, a colon, a space and the whole body text; the
  message contains the status and the body text, and no result is returned. This holds
  in both revisions.
\<close>

theorem non_2xx_raises_provider_error:
  assumes "\<not> ok r"
  shows "\<exists>msg. msg = ''Z.AI API error ('' @ show_nat (http_status r) @ ''): '' @ body_text r
     \<and> (network (complete_request this params) = Inr r \<longrightarrow>
          complete this network params = Inl (AppError PROVIDER_ERROR msg))
     \<and> (network (complete_request2 this' params) = Inr r \<longrightarrow>
          complete2 this' network params = Inl (AppError PROVIDER_ERROR msg))
     \<and> includes_str msg (show_nat (http_status r))
     \<and> includes_str msg (body_text r)"
proof -
  let ?msg = "''Z.AI API error ('' @ show_nat (http_status r) @ ''): '' @ body_text r"
  have 1: "includes_str ?msg (show_nat (http_status r))"
    unfolding includes_str_iff by blast
  have "?msg = (''Z.AI API error ('' @ show_nat (http_status r) @ ''): '') @ body_text r @ []"
    by simp
  then have 2: "includes_str ?msg (body_text r)"
    unfolding includes_str_iff by blast
  have 3: "network (complete_request this params) = Inr r \<longrightarrow>
          complete this network params = Inl (AppError PROVIDER_ERROR ?msg)"
    using assms by (simp add: complete_not_ok provider_error_message)
  have 4: "network (complete_request2 this' params) = Inr r \<longrightarrow>
          complete2 this' network params = Inl (AppError PROVIDER_ERROR ?msg)"
    using assms by (simp add: complete2_not_ok provider_error_message)
  from 1 2 3 4 show ?thesis by blast
qed

theorem non_2xx_raises_provider_error_witness:
  "complete (new_ZAIProvider example_config) (example_backend 500 ''boom'' None) (example_params None)
     = Inl (AppError PROVIDER_ERROR ''Z.AI API error (500): boom'')
   \<and> complete2 (new_ZAIProvider2 example_config) (example_backend 500 ''boom'' None) (example_params None)
     = Inl (AppError PROVIDER_ERROR ''Z.AI API error (500): boom'')
   \<and> includes_str ''Z.AI API error (500): boom'' ''500''
   \<and> includes_str ''Z.AI API error (500): boom'' ''boom''"
proof -
  let ?r = "\<lparr>http_status = 500, http_statusText = [], body_text = ''boom'', body_json = None\<rparr>"
  have n: "\<not> ok ?r" by (simp add: ok_def)
  have s: "show_nat 500 = ''500''" by (simp add: show_nat.simps unit_eval)
  from non_2xx_raises_provider_error [OF n, where network = "example_backend 500 ''boom'' None"
      and this = "new_ZAIProvider example_config" and params = "example_params None"
      and this' = "new_ZAIProvider2 example_config"]
  show ?thesis
    by (simp add: s example_backend_def)
qed

lemma complete_example:
  "complete this (example_backend 200 t (Some data)) params =
     (if nullish data \<or> nullish (prop_of data ''choices'')
         \<or> (\<not> nullish (content_path data) \<and> \<not> is_string (content_path data))
         \<or> nullish (prop_of data ''usage'')
      then Inl TypeError
      else Inr \<lparr>result_content = (if nullish (content_path data) then JStr [] else content_path data),
                usage = usage_of data\<rparr>)"
  by (rule complete_ok [where r = "\<lparr>http_status = 200, http_statusText = [], body_text = t,
        body_json = Some data\<rparr>"]) (simp_all add: example_backend_def ok_def)

lemma complete2_example:
  "complete2 this (example_backend 200 t (Some data)) params =
     (if nullish data \<or> nullish (prop_of data ''choices'') \<or> nullish (prop_of data ''usage'')
      then Inl TypeError
      else Inr \<lparr>result_content = (if nullish (content_path data) then JStr [] else content_path data),
                usage = usage_of data\<rparr>)"
  by (rule complete2_ok [where r = "\<lparr>http_status = 200, http_statusText = [], body_text = t,
        body_json = Some data\<rparr>"]) (simp_all add: example_backend_def ok_def)

lemmas js_eval = nullish_def content_path_def opt_prop_def usage_of_def is_string_def
  example_usage_def

text \<open>
  Claim C5 as stated fails: for an envelope with an empty \<open>choices\<close> and a \<open>usage\<close>,
  \<open>complete\<close> returns the content \<open>""\<close> and raises nothing, in both revisions; for
  the envelope that is just \<open>choices: [{message: {}}]\<close>, without \<open>usage\<close>, it raises
  a \<open>TypeError\<close>, and so it does for an envelope without \<open>choices\<close>.
\<close>

theorem empty_choices_counterexample:
  "complete (new_ZAIProvider example_config)
     (example_backend 200 [] (Some (JObj [(''id'', JStr ''zai-1''), (''choices'', JArr []),
                                          (''usage'', example_usage)])))
     (example_params None)
     = Inr \<lparr>result_content = JStr [],
            usage = \<lparr>prompt_tokens = JNum 10, completion_tokens = JNum 0, total_tokens = JNum 10\<rparr>\<rparr>
   \<and> complete2 (new_ZAIProvider2 example_config)
     (example_backend 200 [] (Some (JObj [(''id'', JStr ''zai-1''), (''choices'', JArr []),
                                          (''usage'', example_usage)])))
     (example_params None)
     = Inr \<lparr>result_content = JStr [],
            usage = \<lparr>prompt_tokens = JNum 10, completion_tokens = JNum 0, total_tokens = JNum 10\<rparr>\<rparr>
   \<and> complete (new_ZAIProvider example_config)
     (example_backend 200 [] (Some (JObj [(''choices'', JArr [JObj [(''message'', JObj [])]])])))
     (example_params None)
     = Inl TypeError
   \<and> complete2 (new_ZAIProvider2 example_config)
     (example_backend 200 [] (Some (JObj [(''id'', JStr ''zai-1''), (''usage'', example_usage)])))
     (example_params None)
     = Inl TypeError"
  by (simp add: complete_example complete2_example js_eval)

text \<open>
  Claim C5, amended. For a response with a status from 200 to 299 whose decoded
  envelope has the members \<open>choices\<close> and \<open>usage\<close> (neither \<open>null\<close>): when the value
  at \<open>choices[0]?.message?.content\<close> is absent at a level of the path, which includes
  an empty \<open>choices\<close>, \<open>complete\<close> returns the content \<open>""\<close> with the counters of
  \<open>usage\<close> and raises nothing. When the body is not valid JSON, \<open>complete\<close> raises
  the \<open>SyntaxError\<close> of the decoder.
\<close>

theorem missing_content_degrades:
  "(ok r \<and> body_json r = Some data \<and> \<not> nullish (prop_of data ''choices'')
      \<and> \<not> nullish (prop_of data ''usage'') \<and> nullish (content_path data)
      \<and> network (complete_request this params) = Inr r \<longrightarrow>
    complete this network params = Inr \<lparr>result_content = JStr [], usage = usage_of data\<rparr>)
   \<and> (ok r \<and> body_json r = Some data \<and> \<not> nullish (prop_of data ''choices'')
      \<and> \<not> nullish (prop_of data ''usage'') \<and> nullish (content_path data)
      \<and> network (complete_request2 this' params) = Inr r \<longrightarrow>
    complete2 this' network params = Inr \<lparr>result_content = JStr [], usage = usage_of data\<rparr>)
   \<and> (prop_of data ''choices'' = JArr [] \<longrightarrow> nullish (content_path data))
   \<and> (ok r \<and> body_json r = None \<and> network (complete_request this params) = Inr r \<longrightarrow>
    complete this network params = Inl SyntaxError)
   \<and> (ok r \<and> body_json r = None \<and> network (complete_request2 this' params) = Inr r \<longrightarrow>
    complete2 this' network params = Inl SyntaxError)"
proof -
  have d: "\<not> nullish (prop_of data ''choices'') \<Longrightarrow> \<not> nullish data"
    by (auto simp add: nullish_def)
  have 1: "ok r \<and> body_json r = Some data \<and> \<not> nullish (prop_of data ''choices'')
      \<and> \<not> nullish (prop_of data ''usage'') \<and> nullish (content_path data)
      \<and> network (complete_request this params) = Inr r \<longrightarrow>
    complete this network params = Inr \<lparr>result_content = JStr [], usage = usage_of data\<rparr>"
    using d by (auto simp add: complete_ok)
  have 2: "ok r \<and> body_json r = Some data \<and> \<not> nullish (prop_of data ''choices'')
      \<and> \<not> nullish (prop_of data ''usage'') \<and> nullish (content_path data)
      \<and> network (complete_request2 this' params) = Inr r \<longrightarrow>
    complete2 this' network params = Inr \<lparr>result_content = JStr [], usage = usage_of data\<rparr>"
    using d by (auto simp add: complete2_ok)
  have 3: "prop_of data ''choices'' = JArr [] \<longrightarrow> nullish (content_path data)"
    by (simp add: content_path_def opt_prop_def nullish_def)
  have 4: "ok r \<and> body_json r = None \<and> network (complete_request this params) = Inr r \<longrightarrow>
    complete this network params = Inl SyntaxError"
    by (simp add: complete_def bind_err_def)
  have 5: "ok r \<and> body_json r = None \<and> network (complete_request2 this' params) = Inr r \<longrightarrow>
    complete2 this' network params = Inl SyntaxError"
    by (simp add: complete2_def bind_err_def)
  from 1 2 3 4 5 show ?thesis by blast
qed

theorem missing_content_degrades_witness:
  "complete (new_ZAIProvider example_config)
     (example_backend 200 [] (Some (JObj [(''id'', JStr ''zai-222''),
        (''choices'', JArr [JObj [(''message'', JObj [])]]), (''usage'', example_usage)])))
     (example_params None)
     = Inr \<lparr>result_content = JStr [],
            usage = \<lparr>prompt_tokens = JNum 10, completion_tokens = JNum 0, total_tokens = JNum 10\<rparr>\<rparr>
   \<and> complete2 (new_ZAIProvider2 example_config)
     (example_backend 200 [] (Some (JObj [(''id'', JStr ''zai-222''),
        (''choices'', JArr [JObj [(''message'', JObj [])]]), (''usage'', example_usage)])))
     (example_params None)
     = Inr \<lparr>result_content = JStr [],
            usage = \<lparr>prompt_tokens = JNum 10, completion_tokens = JNum 0, total_tokens = JNum 10\<rparr>\<rparr>
   \<and> complete (new_ZAIProvider example_config) (example_backend 200 ''<html>'' None)
     (example_params None) = Inl SyntaxError
   \<and> complete2 (new_ZAIProvider2 example_config) (example_backend 200 ''<html>'' None)
     (example_params None) = Inl SyntaxError"
  using
    missing_content_degrades
     [where r = "\<lparr>http_status = 200, http_statusText = [], body_text = [],
                   body_json = Some (JObj [(''id'', JStr ''zai-222''),
                     (''choices'', JArr [JObj [(''message'', JObj [])]]), (''usage'', example_usage)])\<rparr>"
        and data = "JObj [(''id'', JStr ''zai-222''),
                     (''choices'', JArr [JObj [(''message'', JObj [])]]), (''usage'', example_usage)]"
        and network = "example_backend 200 [] (Some (JObj [(''id'', JStr ''zai-222''),
                     (''choices'', JArr [JObj [(''message'', JObj [])]]), (''usage'', example_usage)]))"
        and this = "new_ZAIProvider example_config" and this' = "new_ZAIProvider2 example_config"
        and params = "example_params None"]
    missing_content_degrades
     [where r = "\<lparr>http_status = 200, http_statusText = [], body_text = ''<html>'',
                   body_json = None\<rparr>"
        and network = "example_backend 200 ''<html>'' None"
        and this = "new_ZAIProvider example_config" and this' = "new_ZAIProvider2 example_config"
        and params = "example_params None"]
  by (simp add: example_backend_def ok_def js_eval)

text \<open>
  Claim C6 as stated fails: for an envelope with a first choice and its content but
  without \<open>usage\<close>, \<open>complete\<close> raises a \<open>TypeError\<close>, in both revisions.
\<close>

theorem missing_usage_counterexample:
  "complete (new_ZAIProvider example_config)
     (example_backend 200 [] (Some (JObj [(''id'', JStr ''zai-1''),
        (''choices'', JArr [JObj [(''message'', JObj [(''role'', JStr ''assistant''),
                                                     (''content'', JStr ''hi'')]),
                                  (''finish_reason'', JStr ''stop'')]])])))
     (example_params None)
     = Inl TypeError
   \<and> complete2 (new_ZAIProvider2 example_config)
     (example_backend 200 [] (Some (JObj [(''id'', JStr ''zai-1''),
        (''choices'', JArr [JObj [(''message'', JObj [(''role'', JStr ''assistant''),
                                                     (''content'', JStr ''hi'')]),
                                  (''finish_reason'', JStr ''stop'')]])])))
     (example_params None)
     = Inl TypeError"
  by (simp add: complete_example complete2_example js_eval)

text \<open>
  Claim C6, amended. For a response with a status from 200 to 299 whose decoded
  envelope has no \<open>usage\<close> member (or has \<open>null\<close> there), \<open>complete\<close> raises a
  \<open>TypeError\<close>. When \<open>usage\<close> is there, and so is \<open>choices\<close> (and, in the revision
  that logs, the content is absent or a string), \<open>complete\<close> returns, and each counter
  of the result is the property of \<open>usage\<close> of that name, \<open>undefined\<close> when
  \<open>usage\<close> lacks it.
\<close>

theorem missing_usage_raises:
  "(ok r \<and> body_json r = Some data \<and> nullish (prop_of data ''usage'')
      \<and> network (complete_request this params) = Inr r \<longrightarrow>
    complete this network params = Inl TypeError)
   \<and> (ok r \<and> body_json r = Some data \<and> nullish (prop_of data ''usage'')
      \<and> network (complete_request2 this' params) = Inr r \<longrightarrow>
    complete2 this' network params = Inl TypeError)
   \<and> (ok r \<and> body_json r = Some data \<and> \<not> nullish (prop_of data ''usage'')
      \<and> \<not> nullish (prop_of data ''choices'')
      \<and> (nullish (content_path data) \<or> is_string (content_path data))
      \<and> network (complete_request this params) = Inr r \<longrightarrow>
    (\<exists>res. complete this network params = Inr res \<and> usage res = usage_of data))
   \<and> (ok r \<and> body_json r = Some data \<and> \<not> nullish (prop_of data ''usage'')
      \<and> \<not> nullish (prop_of data ''choices'')
      \<and> network (complete_request2 this' params) = Inr r \<longrightarrow>
    (\<exists>res. complete2 this' network params = Inr res \<and> usage res = usage_of data))"
proof -
  have d: "\<not> nullish (prop_of data ''choices'') \<Longrightarrow> \<not> nullish data"
    by (auto simp add: nullish_def)
  have 1: "ok r \<and> body_json r = Some data \<and> nullish (prop_of data ''usage'')
      \<and> network (complete_request this params) = Inr r \<longrightarrow>
    complete this network params = Inl TypeError"
    by (auto simp add: complete_ok)
  have 2: "ok r \<and> body_json r = Some data \<and> nullish (prop_of data ''usage'')
      \<and> network (complete_request2 this' params) = Inr r \<longrightarrow>
    complete2 this' network params = Inl TypeError"
    by (auto simp add: complete2_ok)
  have 3: "ok r \<and> body_json r = Some data \<and> \<not> nullish (prop_of data ''usage'')
      \<and> \<not> nullish (prop_of data ''choices'')
      \<and> (nullish (content_path data) \<or> is_string (content_path data))
      \<and> network (complete_request this params) = Inr r \<longrightarrow>
    (\<exists>res. complete this network params = Inr res \<and> usage res = usage_of data)"
    using d by (auto simp add: complete_ok)
  have 4: "ok r \<and> body_json r = Some data \<and> \<not> nullish (prop_of data ''usage'')
      \<and> \<not> nullish (prop_of data ''choices'')
      \<and> network (complete_request2 this' params) = Inr r \<longrightarrow>
    (\<exists>res. complete2 this' network params = Inr res \<and> usage res = usage_of data)"
    using d by (auto simp add: complete2_ok)
  from 1 2 3 4 show ?thesis by blast
qed

theorem missing_usage_raises_witness:
  "complete (new_ZAIProvider example_config)
     (example_backend 200 [] (Some (JObj [(''id'', JStr ''zai-1''),
        (''choices'', JArr [JObj [(''message'', JObj [(''content'', JStr ''hi'')])]]),
        (''usage'', Null)])))
     (example_params None) = Inl TypeError
   \<and> complete2 (new_ZAIProvider2 example_config)
     (example_backend 200 [] (Some (JObj [(''id'', JStr ''zai-1''),
        (''choices'', JArr [JObj [(''message'', JObj [(''content'', JStr ''hi'')])]]),
        (''usage'', Null)])))
     (example_params None) = Inl TypeError
   \<and> (\<exists>res. complete (new_ZAIProvider example_config)
     (example_backend 200 [] (Some (JObj [(''id'', JStr ''zai-1''),
        (''choices'', JArr [JObj [(''message'', JObj [(''content'', JStr ''hi'')])]]),
        (''usage'', JObj [(''prompt_tokens'', JNum 3)])])))
     (example_params None) = Inr res
      \<and> usage res = \<lparr>prompt_tokens = JNum 3, completion_tokens = Undefined, total_tokens = Undefined\<rparr>)
   \<and> (\<exists>res. complete2 (new_ZAIProvider2 example_config)
     (example_backend 200 [] (Some (JObj [(''id'', JStr ''zai-1''),
        (''choices'', JArr [JObj [(''message'', JObj [(''content'', JStr ''hi'')])]]),
        (''usage'', JObj [(''prompt_tokens'', JNum 3)])])))
     (example_params None) = Inr res
      \<and> usage res = \<lparr>prompt_tokens = JNum 3, completion_tokens = Undefined, total_tokens = Undefined\<rparr>)"
  using
    missing_usage_raises
     [where r = "\<lparr>http_status = 200, http_statusText = [], body_text = [],
                   body_json = Some (JObj [(''id'', JStr ''zai-1''),
        (''choices'', JArr [JObj [(''message'', JObj [(''content'', JStr ''hi'')])]]),
        (''usage'', Null)])\<rparr>"
        and data = "JObj [(''id'', JStr ''zai-1''),
        (''choices'', JArr [JObj [(''message'', JObj [(''content'', JStr ''hi'')])]]),
        (''usage'', Null)]"
        and network = "example_backend 200 [] (Some (JObj [(''id'', JStr ''zai-1''),
        (''choices'', JArr [JObj [(''message'', JObj [(''content'', JStr ''hi'')])]]),
        (''usage'', Null)]))"
        and this = "new_ZAIProvider example_config" and this' = "new_ZAIProvider2 example_config"
        and params = "example_params None"]
    missing_usage_raises
     [where r = "\<lparr>http_status = 200, http_statusText = [], body_text = [],
                   body_json = Some (JObj [(''id'', JStr ''zai-1''),
        (''choices'', JArr [JObj [(''message'', JObj [(''content'', JStr ''hi'')])]]),
        (''usage'', JObj [(''prompt_tokens'', JNum 3)])])\<rparr>"
        and data = "JObj [(''id'', JStr ''zai-1''),
        (''choices'', JArr [JObj [(''message'', JObj [(''content'', JStr ''hi'')])]]),
        (''usage'', JObj [(''prompt_tokens'', JNum 3)])]"
        and network = "example_backend 200 [] (Some (JObj [(''id'', JStr ''zai-1''),
        (''choices'', JArr [JObj [(''message'', JObj [(''content'', JStr ''hi'')])]]),
        (''usage'', JObj [(''prompt_tokens'', JNum 3)])]))"
        and this = "new_ZAIProvider example_config" and this' = "new_ZAIProvider2 example_config"
        and params = "example_params None"]
  by (simp add: example_backend_def ok_def js_eval)

end
